theory Spec2Isabelle
  imports Main "HOL-Library.Sublist"
begin

section \<open>JavaScript values, strings and errors\<close>

text \<open>
  A JavaScript string is modelled by the list of bytes of its UTF-8 encoding (the strings
  of the program are well formed: they come from JSON text and the process environment).
  This is the form in which \<^verbatim>\<open>Buffer.from\<close>, \<^verbatim>\<open>encodeURIComponent\<close> and the
  HTTP client see them.  Numbers are modelled by \<^typ>\<open>int\<close>: work item ids, definition
  ids and \<^verbatim>\<open>top\<close> are integers.  \<open>String_int\<close> stands for the built-in \<^verbatim>\<open>String(n)\<close>
  on them; it is the decimal numeral, which is what the built-in gives for the integers of
  magnitude below \<open>2^53\<close>.  Fractions and larger magnitudes (which the built-in may print
  rounded or with an exponent) are outside the model, and no property below depends on
  which characters the text of a number has.
\<close>

datatype json =
    JNull
  | JBool bool
  | JNum int
  | JStr string
  | JArr "json list"
  | JObj "(string \<times> json) list"

text \<open>\<^verbatim>\<open>String(n)\<close> for a non-negative integer, and for an integer.\<close>

definition digit_char :: "nat \<Rightarrow> char" where
  "digit_char d = ''0123456789'' ! d"

fun String_nat :: "nat \<Rightarrow> string" where
  "String_nat n = (if n < 10 then [digit_char n] else String_nat (n div 10) @ [digit_char (n mod 10)])"

declare String_nat.simps [simp del]

definition String_int :: "int \<Rightarrow> string" where
  "String_int i = (if i < 0 then CHR ''-'' # String_nat (nat (- i)) else String_nat (nat i))"

text \<open>\<^verbatim>\<open>xs.join(sep)\<close> on an array of strings.\<close>

fun join :: "string \<Rightarrow> string list \<Rightarrow> string" where
  "join sep [] = []"
| "join sep [x] = x"
| "join sep (x # y # ys) = x @ sep @ join sep (y # ys)"

text \<open>
  The errors the program throws or lets through: a plain \<^verbatim>\<open>Error\<close> (or an error of the
  runtime or the HTTP library) with its \<^verbatim>\<open>name\<close> and \<^verbatim>\<open>message\<close>, and the protocol
  library's \<^verbatim>\<open>McpError(code, message)\<close>.
\<close>

datatype ErrorCode = MethodNotFound | InvalidParams | InternalError

fun ErrorCode_value :: "ErrorCode \<Rightarrow> int" where
  "ErrorCode_value MethodNotFound = - 32601"
| "ErrorCode_value InvalidParams = - 32602"
| "ErrorCode_value InternalError = - 32603"

datatype js_error =
    JsError string string
  | McpError ErrorCode string

text \<open>\<^verbatim>\<open>new Error(msg)\<close>.\<close>

abbreviation Error :: "string \<Rightarrow> js_error" where
  "Error msg \<equiv> JsError ''Error'' msg"

text \<open>
  \<^verbatim>\<open>error.message\<close>: the protocol library's constructor calls
  \<^verbatim>\<open>super(`MCP error ${code}: ${message}`)\<close> and sets the name \<^verbatim>\<open>McpError\<close>.
\<close>

fun error_message :: "js_error \<Rightarrow> string" where
  "error_message (JsError name msg) = msg"
| "error_message (McpError code msg) = ''MCP error '' @ String_int (ErrorCode_value code) @ '': '' @ msg"

fun error_name :: "js_error \<Rightarrow> string" where
  "error_name (JsError name msg) = name"
| "error_name (McpError code msg) = ''McpError''"

text \<open>\<^verbatim>\<open>`${error}`\<close>, that is \<^verbatim>\<open>Error.prototype.toString\<close>.\<close>

definition error_toString :: "js_error \<Rightarrow> string" where
  "error_toString e =
     (if error_name e = [] then error_message e
      else if error_message e = [] then error_name e
      else error_name e @ '': '' @ error_message e)"

section \<open>The HTTP world\<close>

text \<open>
  \<^verbatim>\<open>request(url, {method, headers, body})\<close> of the HTTP library either rejects (a network
  error) or resolves to a response with a \<^verbatim>\<open>statusCode\<close> and a body;
  \<^verbatim>\<open>res.body.json()\<close> either yields the parsed value or rejects.  The remote side is a
  parameter: it answers the \<open>n\<close>-th request of an invocation.  The state threaded through
  the program is the trace of its effects: requests sent and sleeps.
\<close>

record http_request =
  req_method :: string
  req_url :: string
  req_headers :: "(string \<times> string) list"
  req_body :: "string option"

record http_response =
  statusCode :: nat
  body_json :: "js_error + json"

datatype event = Request http_request | Sleep nat

type_synonym network = "nat \<Rightarrow> http_request \<Rightarrow> js_error + http_response"

fun requests_of :: "event list \<Rightarrow> http_request list" where
  "requests_of [] = []"
| "requests_of (Request r # es) = r # requests_of es"
| "requests_of (Sleep ms # es) = requests_of es"

fun sleeps_of :: "event list \<Rightarrow> nat list" where
  "sleeps_of [] = []"
| "sleeps_of (Request r # es) = sleeps_of es"
| "sleeps_of (Sleep ms # es) = ms # sleeps_of es"

definition request :: "network \<Rightarrow> http_request \<Rightarrow> event list \<Rightarrow> (js_error + http_response) \<times> event list" where
  "request net req tr = (net (length (requests_of tr)) req, tr @ [Request req])"

definition sleep :: "nat \<Rightarrow> event list \<Rightarrow> event list" where
  "sleep ms tr = tr @ [Sleep ms]"

section \<open>The REST client\<close>

subsection \<open>Authentication\<close>

text \<open>
  \<^verbatim>\<open>Buffer.from(s).toString("base64")\<close>: the standard base64 alphabet, three bytes to
  four characters, padded with \<^verbatim>\<open>=\<close>.
\<close>

definition base64_char :: "nat \<Rightarrow> char" where
  "base64_char n = ''ABCDEFGHIJKLMNOPQRSTUVWXYZabcdefghijklmnopqrstuvwxyz0123456789+/'' ! n"

fun base64 :: "string \<Rightarrow> string" where
  "base64 [] = []"
| "base64 [a] =
     (let x = (of_char a :: nat) in
      [base64_char (x div 4), base64_char ((x mod 4) * 16), CHR ''='', CHR ''=''])"
| "base64 [a, b] =
     (let x = (of_char a :: nat); y = (of_char b :: nat) in
      [base64_char (x div 4), base64_char ((x mod 4) * 16 + y div 16),
       base64_char ((y mod 16) * 4), CHR ''=''])"
| "base64 (a # b # c # rest) =
     (let x = (of_char a :: nat); y = (of_char b :: nat); z = (of_char c :: nat) in
      [base64_char (x div 4), base64_char ((x mod 4) * 16 + y div 16),
       base64_char ((y mod 16) * 4 + z div 64), base64_char (z mod 64)] @ base64 rest)"

definition authHeader :: "string \<Rightarrow> string" where
  "authHeader pat = ''Basic '' @ base64 ('':'' @ pat)"

subsection \<open>GET with retries, POST and PATCH\<close>

text \<open>
  The loop \<^verbatim>\<open>for (let i = 0; i < 3; i++)\<close> of \<^verbatim>\<open>adoGet\<close>, from the value \<open>i\<close> of its
  counter.
\<close>

function adoGet_loop :: "network \<Rightarrow> string \<Rightarrow> string \<Rightarrow> nat \<Rightarrow> event list \<Rightarrow> (js_error + json) \<times> event list" where
  "adoGet_loop net url pat i tr =
     (if i < 3 then
        (case request net \<lparr>req_method = ''GET'', req_url = url,
                req_headers = [(''Authorization'', authHeader pat)], req_body = None\<rparr> tr of
           (Inl e, tr1) \<Rightarrow> (Inl e, tr1)
         | (Inr res, tr1) \<Rightarrow>
             if 200 \<le> statusCode res \<and> statusCode res < 300 then (body_json res, tr1)
             else if statusCode res = 429 \<or> 500 \<le> statusCode res
               then adoGet_loop net url pat (i + 1) (sleep (250 * (i + 1)) tr1)
             else (Inl (Error (String_nat (statusCode res) @ '' GET '' @ url)), tr1))
      else (Inl (Error (''Retries exceeded: GET '' @ url)), tr))"
  by pat_completeness auto
termination
  by (relation "measure (\<lambda>(net, url, pat, i, tr). 3 - i)") auto

declare adoGet_loop.simps [simp del]

definition adoGet :: "network \<Rightarrow> string \<Rightarrow> string \<Rightarrow> event list \<Rightarrow> (js_error + json) \<times> event list" where
  "adoGet net url pat tr = adoGet_loop net url pat 0 tr"

text \<open>
  \<^verbatim>\<open>adoPost\<close> and \<^verbatim>\<open>adoPatch\<close> take the body already serialised by
  \<^verbatim>\<open>JSON.stringify\<close> (see \<open>JSON_stringify\<close> below) and the content type, whose
  defaults the callers below write out.
\<close>

definition adoPost :: "network \<Rightarrow> string \<Rightarrow> string \<Rightarrow> string \<Rightarrow> string \<Rightarrow> event list \<Rightarrow> (js_error + json) \<times> event list" where
  "adoPost net url pat body contentType tr =
     (case request net \<lparr>req_method = ''POST'', req_url = url,
             req_headers = [(''Authorization'', authHeader pat), (''Content-Type'', contentType)],
             req_body = Some body\<rparr> tr of
        (Inl e, tr1) \<Rightarrow> (Inl e, tr1)
      | (Inr res, tr1) \<Rightarrow>
          if statusCode res < 200 \<or> 300 \<le> statusCode res
            then (Inl (Error (String_nat (statusCode res) @ '' POST '' @ url)), tr1)
          else (body_json res, tr1))"

definition adoPatch :: "network \<Rightarrow> string \<Rightarrow> string \<Rightarrow> string \<Rightarrow> string \<Rightarrow> event list \<Rightarrow> (js_error + json) \<times> event list" where
  "adoPatch net url pat body contentType tr =
     (case request net \<lparr>req_method = ''PATCH'', req_url = url,
             req_headers = [(''Authorization'', authHeader pat), (''Content-Type'', contentType)],
             req_body = Some body\<rparr> tr of
        (Inl e, tr1) \<Rightarrow> (Inl e, tr1)
      | (Inr res, tr1) \<Rightarrow>
          if statusCode res < 200 \<or> 300 \<le> statusCode res
            then (Inl (Error (String_nat (statusCode res) @ '' PATCH '' @ url)), tr1)
          else (body_json res, tr1))"

subsection \<open>Percent-encoding and query strings\<close>

definition hex_digit :: "nat \<Rightarrow> char" where
  "hex_digit n = ''0123456789ABCDEF'' ! n"

definition percent_byte :: "char \<Rightarrow> string" where
  "percent_byte c = [CHR ''%'', hex_digit ((of_char c :: nat) div 16), hex_digit ((of_char c :: nat) mod 16)]"

definition alphanumeric :: "string" where
  "alphanumeric = ''ABCDEFGHIJKLMNOPQRSTUVWXYZabcdefghijklmnopqrstuvwxyz0123456789''"

text \<open>
  \<^verbatim>\<open>encodeURIComponent\<close> keeps the letters, the digits and \<^verbatim>\<open>- _ . ! ~ * ' ( )\<close>, and
  writes every other byte of the UTF-8 encoding as \<^verbatim>\<open>%XX\<close>.
\<close>

definition uri_unescaped :: "char \<Rightarrow> bool" where
  "uri_unescaped c \<longleftrightarrow> c \<in> set (alphanumeric @ ''-_.!~*()'' @ [CHR 0x27])"

definition encodeURIComponent :: "string \<Rightarrow> string" where
  "encodeURIComponent s = concat (map (\<lambda>c. if uri_unescaped c then [c] else percent_byte c) s)"

text \<open>
  \<^verbatim>\<open>URLSearchParams\<close>: the list of name-value pairs; \<^verbatim>\<open>set\<close> replaces the first pair of
  that name and removes the others, or appends; \<^verbatim>\<open>`${q}`\<close> is the
  \<^verbatim>\<open>application/x-www-form-urlencoded\<close> serialisation, which keeps the letters, the
  digits and \<^verbatim>\<open>* - . _\<close>, writes a space as \<^verbatim>\<open>+\<close> and every other byte as \<^verbatim>\<open>%XX\<close>.
\<close>

type_synonym URLSearchParams = "(string \<times> string) list"

fun URLSearchParams_set :: "URLSearchParams \<Rightarrow> string \<Rightarrow> string \<Rightarrow> URLSearchParams" where
  "URLSearchParams_set [] name v = [(name, v)]"
| "URLSearchParams_set ((k, w) # q) name v =
     (if k = name then (name, v) # filter (\<lambda>kw. fst kw \<noteq> name) q
      else (k, w) # URLSearchParams_set q name v)"

definition form_urlencode :: "string \<Rightarrow> string" where
  "form_urlencode s =
     concat (map (\<lambda>c. if c = CHR '' '' then ''+''
                       else if c \<in> set (alphanumeric @ ''*-._'') then [c]
                       else percent_byte c) s)"

definition URLSearchParams_toString :: "URLSearchParams \<Rightarrow> string" where
  "URLSearchParams_toString q =
     join ''&'' (map (\<lambda>kv. form_urlencode (fst kv) @ ''='' @ form_urlencode (snd kv)) q)"

subsection \<open>\<^verbatim>\<open>JSON.stringify\<close>\<close>

definition hex_digit_lower :: "nat \<Rightarrow> char" where
  "hex_digit_lower n = ''0123456789abcdef'' ! n"

definition JSON_escape_char :: "char \<Rightarrow> string" where
  "JSON_escape_char c =
     (if c = CHR 0x22 then [CHR 0x5C, CHR 0x22]
      else if c = CHR 0x5C then [CHR 0x5C, CHR 0x5C]
      else if c = CHR 0x08 then [CHR 0x5C, CHR ''b'']
      else if c = CHR 0x0C then [CHR 0x5C, CHR ''f'']
      else if c = CHR 0x0A then [CHR 0x5C, CHR ''n'']
      else if c = CHR 0x0D then [CHR 0x5C, CHR ''r'']
      else if c = CHR 0x09 then [CHR 0x5C, CHR ''t'']
      else if (of_char c :: nat) < 32
        then [CHR 0x5C, CHR ''u'', CHR ''0'', CHR ''0'',
              hex_digit_lower ((of_char c :: nat) div 16), hex_digit_lower ((of_char c :: nat) mod 16)]
      else [c])"

definition JSON_quote :: "string \<Rightarrow> string" where
  "JSON_quote s = [CHR 0x22] @ concat (map JSON_escape_char s) @ [CHR 0x22]"

text \<open>\<^verbatim>\<open>JSON.stringify(v)\<close>, the compact form sent as a request body.\<close>

fun JSON_stringify :: "json \<Rightarrow> string" where
  "JSON_stringify JNull = ''null''"
| "JSON_stringify (JBool b) = (if b then ''true'' else ''false'')"
| "JSON_stringify (JNum n) = String_int n"
| "JSON_stringify (JStr s) = JSON_quote s"
| "JSON_stringify (JArr xs) = ''['' @ join '','' (map JSON_stringify xs) @ '']''"
| "JSON_stringify (JObj kvs) =
     ''{'' @ join '','' (map (\<lambda>kv. JSON_quote (fst kv) @ '':'' @ JSON_stringify (snd kv)) kvs) @ ''}''"

text \<open>\<^verbatim>\<open>JSON.stringify(v, null, 2)\<close>, the text of a tool result, at indentation \<open>ind\<close>.\<close>

fun JSON_stringify_indent :: "nat \<Rightarrow> json \<Rightarrow> string" where
  "JSON_stringify_indent ind JNull = ''null''"
| "JSON_stringify_indent ind (JBool b) = (if b then ''true'' else ''false'')"
| "JSON_stringify_indent ind (JNum n) = String_int n"
| "JSON_stringify_indent ind (JStr s) = JSON_quote s"
| "JSON_stringify_indent ind (JArr xs) =
     (if xs = [] then ''[]''
      else ''['' @ [CHR 0x0A] @ replicate (ind + 2) CHR '' ''
        @ join ('','' @ [CHR 0x0A] @ replicate (ind + 2) CHR '' '') (map (JSON_stringify_indent (ind + 2)) xs)
        @ [CHR 0x0A] @ replicate ind CHR '' '' @ '']'')"
| "JSON_stringify_indent ind (JObj kvs) =
     (if kvs = [] then ''{}''
      else ''{'' @ [CHR 0x0A] @ replicate (ind + 2) CHR '' ''
        @ join ('','' @ [CHR 0x0A] @ replicate (ind + 2) CHR '' '')
            (map (\<lambda>kv. JSON_quote (fst kv) @ '': '' @ JSON_stringify_indent (ind + 2) (snd kv)) kvs)
        @ [CHR 0x0A] @ replicate ind CHR '' '' @ ''}'')"

subsection \<open>\<^verbatim>\<open>makeADO\<close>: one method per endpoint\<close>

record ADOOpts =
  ado_org :: string
  ado_project :: "string option"
  ado_pat :: string

definition baseUrl :: "string \<Rightarrow> string" where
  "baseUrl org = ''https://'' @ encodeURIComponent org @ ''.visualstudio.com''"

text \<open>\<^verbatim>\<open>s.replace(/\/$/, "")\<close>: one slash at the end of the string is removed.\<close>

definition strip_trailing_slash :: "string \<Rightarrow> string" where
  "strip_trailing_slash s = (if s \<noteq> [] \<and> last s = CHR ''/'' then butlast s else s)"

text \<open>Truthiness of an optional string and of an optional number.\<close>

fun truthy_string :: "string option \<Rightarrow> bool" where
  "truthy_string None = False"
| "truthy_string (Some s) = (s \<noteq> [])"

fun truthy_number :: "int option \<Rightarrow> bool" where
  "truthy_number None = False"
| "truthy_number (Some n) = (n \<noteq> 0)"

definition orgBase :: "ADOOpts \<Rightarrow> string" where
  "orgBase ado =
     strip_trailing_slash
       (baseUrl (ado_org ado) @ ''/'' @
         (case ado_project ado of
            Some p \<Rightarrow> if p \<noteq> [] then encodeURIComponent p else []
          | None \<Rightarrow> []))"

definition listProjects :: "network \<Rightarrow> ADOOpts \<Rightarrow> event list \<Rightarrow> (js_error + json) \<times> event list" where
  "listProjects net ado tr =
     adoGet net (baseUrl (ado_org ado) @ ''/_apis/projects?api-version=6.0'') (ado_pat ado) tr"

definition listPipelines :: "network \<Rightarrow> ADOOpts \<Rightarrow> event list \<Rightarrow> (js_error + json) \<times> event list" where
  "listPipelines net ado tr =
     adoGet net (orgBase ado @ ''/_apis/pipelines?api-version=6.0-preview.1'') (ado_pat ado) tr"

record ListBuildsOpts =
  lb_definitions :: "int list option"
  lb_branchName :: "string option"
  lb_top :: "int option"
  lb_continuationToken :: "string option"

definition listBuilds_q :: "ListBuildsOpts \<Rightarrow> URLSearchParams" where
  "listBuilds_q opts =
     (let q0 = [(''api-version'', ''6.0'')];
          q1 = (case lb_top opts of
                  Some n \<Rightarrow> if n \<noteq> 0 then URLSearchParams_set q0 ''$top'' (String_int n) else q0
                | None \<Rightarrow> q0);
          q2 = (case lb_branchName opts of
                  Some b \<Rightarrow> if b \<noteq> [] then URLSearchParams_set q1 ''branchName'' b else q1
                | None \<Rightarrow> q1);
          q3 = (case lb_definitions opts of
                  Some ds \<Rightarrow> if length ds \<noteq> 0
                    then URLSearchParams_set q2 ''definitions'' (join '','' (map String_int ds)) else q2
                | None \<Rightarrow> q2);
          q4 = (case lb_continuationToken opts of
                  Some c \<Rightarrow> if c \<noteq> [] then URLSearchParams_set q3 ''continuationToken'' c else q3
                | None \<Rightarrow> q3)
      in q4)"

definition listBuilds_url :: "ADOOpts \<Rightarrow> ListBuildsOpts \<Rightarrow> string" where
  "listBuilds_url ado opts =
     orgBase ado @ ''/_apis/build/builds?'' @ URLSearchParams_toString (listBuilds_q opts)"

definition listBuilds :: "network \<Rightarrow> ADOOpts \<Rightarrow> ListBuildsOpts \<Rightarrow> event list \<Rightarrow> (js_error + json) \<times> event list" where
  "listBuilds net ado opts tr = adoGet net (listBuilds_url ado opts) (ado_pat ado) tr"

definition wiqlTeam :: "network \<Rightarrow> ADOOpts \<Rightarrow> string \<Rightarrow> string \<Rightarrow> event list \<Rightarrow> (js_error + json) \<times> event list" where
  "wiqlTeam net ado team wiql tr =
     adoPost net (orgBase ado @ ''/'' @ encodeURIComponent team @ ''/_apis/wit/wiql?api-version=6.0'')
       (ado_pat ado) (JSON_stringify (JObj [(''query'', JStr wiql)])) ''application/json'' tr"

definition getWorkItem :: "network \<Rightarrow> ADOOpts \<Rightarrow> int \<Rightarrow> event list \<Rightarrow> (js_error + json) \<times> event list" where
  "getWorkItem net ado wid tr =
     adoGet net (orgBase ado @ ''/_apis/wit/workitems/'' @ String_int wid @ ''?api-version=6.0'')
       (ado_pat ado) tr"

text \<open>
  In \<^verbatim>\<open>{ ids, fields }\<close> the member \<^verbatim>\<open>fields\<close> is \<^verbatim>\<open>undefined\<close> when the argument is
  absent, and \<^verbatim>\<open>JSON.stringify\<close> leaves such a member out.
\<close>

definition getWorkItems :: "network \<Rightarrow> ADOOpts \<Rightarrow> int list \<Rightarrow> string list option \<Rightarrow> event list \<Rightarrow> (js_error + json) \<times> event list" where
  "getWorkItems net ado ids flds tr =
     adoPost net (orgBase ado @ ''/_apis/wit/workitemsbatch?api-version=6.0'') (ado_pat ado)
       (JSON_stringify (JObj ([(''ids'', JArr (map JNum ids))] @
          (case flds of Some fs \<Rightarrow> [(''fields'', JArr (map JStr fs))] | None \<Rightarrow> []))))
       ''application/json'' tr"

text \<open>An operation of a JSON-patch document: \<^verbatim>\<open>{ op, path, value }\<close>.\<close>

record patch_op =
  op :: string
  path :: string
  val :: string

definition patch_op_json :: "patch_op \<Rightarrow> json" where
  "patch_op_json p = JObj [(''op'', JStr (op p)), (''path'', JStr (path p)), (''value'', JStr (val p))]"

definition createWorkItem_url :: "ADOOpts \<Rightarrow> string \<Rightarrow> string" where
  "createWorkItem_url ado type =
     orgBase ado @ ''/_apis/wit/workitems/$'' @ encodeURIComponent type @ ''?api-version=6.0''"

definition createWorkItem :: "network \<Rightarrow> ADOOpts \<Rightarrow> string \<Rightarrow> patch_op list \<Rightarrow> event list \<Rightarrow> (js_error + json) \<times> event list" where
  "createWorkItem net ado type ops tr =
     adoPatch net (createWorkItem_url ado type) (ado_pat ado)
       (JSON_stringify (JArr (map patch_op_json ops))) ''application/json-patch+json'' tr"

definition updateWorkItem_url :: "ADOOpts \<Rightarrow> int \<Rightarrow> string" where
  "updateWorkItem_url ado wid = orgBase ado @ ''/_apis/wit/workitems/'' @ String_int wid @ ''?api-version=6.0''"

definition updateWorkItem :: "network \<Rightarrow> ADOOpts \<Rightarrow> int \<Rightarrow> patch_op list \<Rightarrow> event list \<Rightarrow> (js_error + json) \<times> event list" where
  "updateWorkItem net ado wid ops tr =
     adoPatch net (updateWorkItem_url ado wid) (ado_pat ado)
       (JSON_stringify (JArr (map patch_op_json ops))) ''application/json-patch+json'' tr"

definition addComment :: "network \<Rightarrow> ADOOpts \<Rightarrow> int \<Rightarrow> string \<Rightarrow> event list \<Rightarrow> (js_error + json) \<times> event list" where
  "addComment net ado wid text tr =
     adoPost net (orgBase ado @ ''/_apis/wit/workItems/'' @ String_int wid @ ''/comments?api-version=6.0-preview.4'')
       (ado_pat ado) (JSON_stringify (JObj [(''text'', JStr text)])) ''application/json'' tr"

definition listBoardColumns :: "network \<Rightarrow> ADOOpts \<Rightarrow> string option \<Rightarrow> event list \<Rightarrow> (js_error + json) \<times> event list" where
  "listBoardColumns net ado team tr =
     adoGet net
       (case team of
          Some t \<Rightarrow> if t \<noteq> []
            then orgBase ado @ ''/'' @ encodeURIComponent t @ ''/_apis/work/boardcolumns?api-version=6.0''
            else orgBase ado @ ''/_apis/work/boardcolumns?api-version=6.0''
        | None \<Rightarrow> orgBase ado @ ''/_apis/work/boardcolumns?api-version=6.0'')
       (ado_pat ado) tr"

definition listTeamIterations :: "network \<Rightarrow> ADOOpts \<Rightarrow> string \<Rightarrow> string option \<Rightarrow> event list \<Rightarrow> (js_error + json) \<times> event list" where
  "listTeamIterations net ado team timeframe tr =
     (let q0 = [(''api-version'', ''6.0'')];
          q = (case timeframe of
                 Some t \<Rightarrow> if t \<noteq> [] then URLSearchParams_set q0 ''$timeframe'' t else q0
               | None \<Rightarrow> q0)
      in adoGet net
           (orgBase ado @ ''/'' @ encodeURIComponent team @ ''/_apis/work/teamsettings/iterations?''
              @ URLSearchParams_toString q)
           (ado_pat ado) tr)"

definition getIterationWorkItems :: "network \<Rightarrow> ADOOpts \<Rightarrow> string \<Rightarrow> string \<Rightarrow> event list \<Rightarrow> (js_error + json) \<times> event list" where
  "getIterationWorkItems net ado team iterationId tr =
     adoGet net
       (orgBase ado @ ''/'' @ encodeURIComponent team @ ''/_apis/work/teamsettings/iterations/''
          @ iterationId @ ''/workitems?api-version=6.0'')
       (ado_pat ado) tr"

section \<open>Argument validation\<close>

text \<open>
  The arguments of a tool call are a JSON value, or absent.  The validation library is
  modelled by combinators: a schema reads a value found at a path and yields either the
  list of its issues or the validated value; an object schema reads its members in the
  order of their declaration, collects the issues of all of them and drops members it
  does not declare.  An issue has the path of the offending member and a message (the
  library's default texts).
\<close>

datatype path_elem = Key string | Index nat

record zod_issue =
  issue_path :: "path_elem list"
  issue_message :: string

type_synonym 'a zod_schema = "path_elem list \<Rightarrow> json option \<Rightarrow> zod_issue list + 'a"

fun parsed_type :: "json option \<Rightarrow> string" where
  "parsed_type None = ''undefined''"
| "parsed_type (Some JNull) = ''null''"
| "parsed_type (Some (JBool b)) = ''boolean''"
| "parsed_type (Some (JNum n)) = ''number''"
| "parsed_type (Some (JStr s)) = ''string''"
| "parsed_type (Some (JArr xs)) = ''array''"
| "parsed_type (Some (JObj kvs)) = ''object''"

definition invalid_type :: "path_elem list \<Rightarrow> string \<Rightarrow> json option \<Rightarrow> zod_issue" where
  "invalid_type p expected v =
     \<lparr>issue_path = p,
      issue_message = (if v = None then ''Required''
                       else ''Expected '' @ expected @ '', received '' @ parsed_type v)\<rparr>"

text \<open>
  \<^verbatim>\<open>s.length\<close> counts UTF-16 code units: one for each code point, two for a code point
  beyond the basic plane (a four-byte sequence in UTF-8).
\<close>

definition js_length :: "string \<Rightarrow> nat" where
  "js_length s =
     length (filter (\<lambda>c. (of_char c :: nat) < 128 \<or> 192 \<le> (of_char c :: nat)) s)
     + length (filter (\<lambda>c. 240 \<le> (of_char c :: nat)) s)"

text \<open>\<^verbatim>\<open>z.string()\<close> and \<^verbatim>\<open>z.string().min(m)\<close>.\<close>

definition z_string :: "nat option \<Rightarrow> string zod_schema" where
  "z_string mn p v =
     (case v of
        Some (JStr s) \<Rightarrow>
          (case mn of
             Some m \<Rightarrow>
               if js_length s < m
                 then Inl [\<lparr>issue_path = p,
                            issue_message = ''String must contain at least '' @ String_nat m @ '' character(s)''\<rparr>]
               else Inr s
           | None \<Rightarrow> Inr s)
      | _ \<Rightarrow> Inl [invalid_type p ''string'' v])"

text \<open>\<^verbatim>\<open>z.number()\<close> and \<^verbatim>\<open>z.number().min(lo).max(hi)\<close>.\<close>

definition z_number :: "(int \<times> int) option \<Rightarrow> int zod_schema" where
  "z_number bounds p v =
     (case v of
        Some (JNum n) \<Rightarrow>
          (case bounds of
             Some (lo, hi) \<Rightarrow>
               if n < lo
                 then Inl [\<lparr>issue_path = p,
                            issue_message = ''Number must be greater than or equal to '' @ String_int lo\<rparr>]
               else if hi < n
                 then Inl [\<lparr>issue_path = p,
                            issue_message = ''Number must be less than or equal to '' @ String_int hi\<rparr>]
               else Inr n
           | None \<Rightarrow> Inr n)
      | _ \<Rightarrow> Inl [invalid_type p ''number'' v])"

text \<open>\<^verbatim>\<open>schema.optional()\<close>.\<close>

definition z_optional :: "'a zod_schema \<Rightarrow> 'a option zod_schema" where
  "z_optional schema p v =
     (case v of
        None \<Rightarrow> Inr None
      | Some x \<Rightarrow> (case schema p v of Inl is \<Rightarrow> Inl is | Inr y \<Rightarrow> Inr (Some y)))"

text \<open>Two results together: the issues of both, or both values.\<close>

definition z_both :: "zod_issue list + 'a \<Rightarrow> zod_issue list + 'b \<Rightarrow> zod_issue list + 'a \<times> 'b" where
  "z_both a b =
     (case a of
        Inl is \<Rightarrow> (case b of Inl js \<Rightarrow> Inl (is @ js) | Inr y \<Rightarrow> Inl is)
      | Inr x \<Rightarrow> (case b of Inl js \<Rightarrow> Inl js | Inr y \<Rightarrow> Inr (x, y)))"

text \<open>\<^verbatim>\<open>z.array(schema)\<close>: the elements from index \<open>i\<close> on.\<close>

fun z_elements :: "'a zod_schema \<Rightarrow> path_elem list \<Rightarrow> nat \<Rightarrow> json list \<Rightarrow> zod_issue list + 'a list" where
  "z_elements schema p i [] = Inr []"
| "z_elements schema p i (x # xs) =
     (case z_both (schema (p @ [Index i]) (Some x)) (z_elements schema p (Suc i) xs) of
        Inl is \<Rightarrow> Inl is
      | Inr (y, ys) \<Rightarrow> Inr (y # ys))"

definition z_array :: "'a zod_schema \<Rightarrow> 'a list zod_schema" where
  "z_array schema p v =
     (case v of
        Some (JArr xs) \<Rightarrow> z_elements schema p 0 xs
      | _ \<Rightarrow> Inl [invalid_type p ''array'' v])"

text \<open>\<^verbatim>\<open>z.record(schema)\<close>: an object, every value of which the schema accepts.\<close>

fun z_entries :: "'a zod_schema \<Rightarrow> path_elem list \<Rightarrow> (string \<times> json) list \<Rightarrow> zod_issue list + (string \<times> 'a) list" where
  "z_entries schema p [] = Inr []"
| "z_entries schema p ((k, x) # kvs) =
     (case z_both (schema (p @ [Key k]) (Some x)) (z_entries schema p kvs) of
        Inl is \<Rightarrow> Inl is
      | Inr (y, ys) \<Rightarrow> Inr ((k, y) # ys))"

definition z_record :: "'a zod_schema \<Rightarrow> (string \<times> 'a) list zod_schema" where
  "z_record schema p v =
     (case v of
        Some (JObj kvs) \<Rightarrow> z_entries schema p kvs
      | _ \<Rightarrow> Inl [invalid_type p ''object'' v])"

text \<open>\<^verbatim>\<open>z.enum([...])\<close>.\<close>

definition joinValues :: "string list \<Rightarrow> string" where
  "joinValues options = join '' | '' (map (\<lambda>s. [CHR 0x27] @ s @ [CHR 0x27]) options)"

definition z_enum :: "string list \<Rightarrow> string zod_schema" where
  "z_enum options p v =
     (case v of
        Some (JStr s) \<Rightarrow>
          if s \<in> set options then Inr s
          else Inl [\<lparr>issue_path = p,
                     issue_message = ''Invalid enum value. Expected '' @ joinValues options
                       @ '', received '' @ [CHR 0x27] @ s @ [CHR 0x27]\<rparr>]
      | _ \<Rightarrow> Inl [invalid_type p (joinValues options) v])"

text \<open>The member \<open>k\<close> of an object, read by a schema; \<^verbatim>\<open>undefined\<close> when it is absent.\<close>

definition z_member :: "(string \<times> json) list \<Rightarrow> string \<Rightarrow> 'a zod_schema \<Rightarrow> zod_issue list + 'a" where
  "z_member kvs k schema = schema [Key k] (map_of kvs k)"

section \<open>The tool server\<close>

subsection \<open>Tool argument schemas\<close>

text \<open>\<^verbatim>\<open>z.object({...})\<close>: the value must be an object; its members are read as declared.\<close>

definition z_object :: "((string \<times> json) list \<Rightarrow> zod_issue list + 'a) \<Rightarrow> json option \<Rightarrow> zod_issue list + 'a" where
  "z_object members v =
     (case v of
        Some (JObj kvs) \<Rightarrow> members kvs
      | _ \<Rightarrow> Inl [invalid_type [] ''object'' v])"

definition ListBuildsSchema :: "json option \<Rightarrow> zod_issue list + ListBuildsOpts" where
  "ListBuildsSchema =
     z_object (\<lambda>kvs.
       case z_both (z_member kvs ''definitions'' (z_optional (z_array (z_number None))))
           (z_both (z_member kvs ''branchName'' (z_optional (z_string None)))
           (z_both (z_member kvs ''top'' (z_optional (z_number (Some (1, 200)))))
                   (z_member kvs ''continuationToken'' (z_optional (z_string None))))) of
         Inl is \<Rightarrow> Inl is
       | Inr (ds, b, t, c) \<Rightarrow>
           Inr \<lparr>lb_definitions = ds, lb_branchName = b, lb_top = t, lb_continuationToken = c\<rparr>)"

record WiqlQueryTeam =
  wq_team :: string
  wq_wiql :: string

definition WiqlQueryTeamSchema :: "json option \<Rightarrow> zod_issue list + WiqlQueryTeam" where
  "WiqlQueryTeamSchema =
     z_object (\<lambda>kvs.
       case z_both (z_member kvs ''team'' (z_string (Some 1)))
                   (z_member kvs ''wiql'' (z_string (Some 5))) of
         Inl is \<Rightarrow> Inl is
       | Inr (t, w) \<Rightarrow> Inr \<lparr>wq_team = t, wq_wiql = w\<rparr>)"

definition WorkItemGetSchema :: "json option \<Rightarrow> zod_issue list + int" where
  "WorkItemGetSchema = z_object (\<lambda>kvs. z_member kvs ''id'' (z_number None))"

record WorkItemsGet =
  wg_ids :: "int list"
  wg_fields :: "string list option"

definition WorkItemsGetSchema :: "json option \<Rightarrow> zod_issue list + WorkItemsGet" where
  "WorkItemsGetSchema =
     z_object (\<lambda>kvs.
       case z_both (z_member kvs ''ids'' (z_array (z_number None)))
                   (z_member kvs ''fields'' (z_optional (z_array (z_string None)))) of
         Inl is \<Rightarrow> Inl is
       | Inr (i, f) \<Rightarrow> Inr \<lparr>wg_ids = i, wg_fields = f\<rparr>)"

record WorkItemCreate =
  wc_type :: string
  wc_title :: string
  wc_description :: "string option"
  wc_iterationPath :: "string option"
  wc_areaPath :: "string option"

definition WorkItemCreateSchema :: "json option \<Rightarrow> zod_issue list + WorkItemCreate" where
  "WorkItemCreateSchema =
     z_object (\<lambda>kvs.
       case z_both (z_member kvs ''type'' (z_string None))
           (z_both (z_member kvs ''title'' (z_string None))
           (z_both (z_member kvs ''description'' (z_optional (z_string None)))
           (z_both (z_member kvs ''iterationPath'' (z_optional (z_string None)))
                   (z_member kvs ''areaPath'' (z_optional (z_string None)))))) of
         Inl is \<Rightarrow> Inl is
       | Inr (ty, ti, d, i, a) \<Rightarrow>
           Inr \<lparr>wc_type = ty, wc_title = ti, wc_description = d, wc_iterationPath = i, wc_areaPath = a\<rparr>)"

record WorkItemUpdate =
  wu_id :: int
  wu_state :: "string option"
  wu_iterationPath :: "string option"
  wu_fields :: "(string \<times> string) list option"

definition WorkItemUpdateSchema :: "json option \<Rightarrow> zod_issue list + WorkItemUpdate" where
  "WorkItemUpdateSchema =
     z_object (\<lambda>kvs.
       case z_both (z_member kvs ''id'' (z_number None))
           (z_both (z_member kvs ''state'' (z_optional (z_string None)))
           (z_both (z_member kvs ''iterationPath'' (z_optional (z_string None)))
                   (z_member kvs ''fields'' (z_optional (z_record (z_string None)))))) of
         Inl is \<Rightarrow> Inl is
       | Inr (i, st, it, f) \<Rightarrow>
           Inr \<lparr>wu_id = i, wu_state = st, wu_iterationPath = it, wu_fields = f\<rparr>)"

record WorkItemCommentAdd =
  ca_id :: int
  ca_text :: string

definition WorkItemCommentAddSchema :: "json option \<Rightarrow> zod_issue list + WorkItemCommentAdd" where
  "WorkItemCommentAddSchema =
     z_object (\<lambda>kvs.
       case z_both (z_member kvs ''id'' (z_number None))
                   (z_member kvs ''text'' (z_string (Some 1))) of
         Inl is \<Rightarrow> Inl is
       | Inr (i, t) \<Rightarrow> Inr \<lparr>ca_id = i, ca_text = t\<rparr>)"

definition BoardsListColumnsSchema :: "json option \<Rightarrow> zod_issue list + string option" where
  "BoardsListColumnsSchema = z_object (\<lambda>kvs. z_member kvs ''team'' (z_optional (z_string None)))"

record IterationsList =
  il_team :: string
  il_timeframe :: "string option"

definition IterationsListSchema :: "json option \<Rightarrow> zod_issue list + IterationsList" where
  "IterationsListSchema =
     z_object (\<lambda>kvs.
       case z_both (z_member kvs ''team'' (z_string None))
                   (z_member kvs ''timeframe'' (z_optional (z_enum [''past'', ''current'', ''future'']))) of
         Inl is \<Rightarrow> Inl is
       | Inr (t, f) \<Rightarrow> Inr \<lparr>il_team = t, il_timeframe = f\<rparr>)"

record IterationWorkItems =
  iw_team :: string
  iw_iterationId :: string

definition IterationWorkItemsSchema :: "json option \<Rightarrow> zod_issue list + IterationWorkItems" where
  "IterationWorkItemsSchema =
     z_object (\<lambda>kvs.
       case z_both (z_member kvs ''team'' (z_string None))
                   (z_member kvs ''iterationId'' (z_string None)) of
         Inl is \<Rightarrow> Inl is
       | Inr (t, i) \<Rightarrow> Inr \<lparr>iw_team = t, iw_iterationId = i\<rparr>)"

record BoardMove =
  bm_id :: int
  bm_stateName :: "string option"
  bm_iterationPath :: "string option"

definition BoardMoveSchema :: "json option \<Rightarrow> zod_issue list + BoardMove" where
  "BoardMoveSchema =
     z_object (\<lambda>kvs.
       case z_both (z_member kvs ''id'' (z_number None))
           (z_both (z_member kvs ''stateName'' (z_optional (z_string None)))
                   (z_member kvs ''iterationPath'' (z_optional (z_string None)))) of
         Inl is \<Rightarrow> Inl is
       | Inr (i, st, it) \<Rightarrow> Inr \<lparr>bm_id = i, bm_stateName = st, bm_iterationPath = it\<rparr>)"

subsection \<open>JSON-patch documents\<close>

text \<open>The array \<^verbatim>\<open>ops\<close> built by the case \<^verbatim>\<open>work_item_create\<close>.\<close>

definition work_item_create_ops :: "WorkItemCreate \<Rightarrow> patch_op list" where
  "work_item_create_ops parsed =
     (let ops0 = [\<lparr>op = ''add'', path = ''/fields/System.Title'', val = wc_title parsed\<rparr>];
          ops1 = (case wc_description parsed of
                    Some d \<Rightarrow> if d \<noteq> []
                      then ops0 @ [\<lparr>op = ''add'', path = ''/fields/System.Description'', val = d\<rparr>] else ops0
                  | None \<Rightarrow> ops0);
          ops2 = (case wc_iterationPath parsed of
                    Some i \<Rightarrow> if i \<noteq> []
                      then ops1 @ [\<lparr>op = ''add'', path = ''/fields/System.IterationPath'', val = i\<rparr>] else ops1
                  | None \<Rightarrow> ops1);
          ops3 = (case wc_areaPath parsed of
                    Some a \<Rightarrow> if a \<noteq> []
                      then ops2 @ [\<lparr>op = ''add'', path = ''/fields/System.AreaPath'', val = a\<rparr>] else ops2
                  | None \<Rightarrow> ops2)
      in ops3)"

text \<open>
  The array \<^verbatim>\<open>ops\<close> built by the case \<^verbatim>\<open>work_item_update\<close>; the loop over
  \<^verbatim>\<open>Object.entries(parsed.fields)\<close> adds one operation for each entry, in their order.
\<close>

definition work_item_update_ops :: "WorkItemUpdate \<Rightarrow> patch_op list" where
  "work_item_update_ops parsed =
     (let ops0 = [];
          ops1 = (case wu_state parsed of
                    Some st \<Rightarrow> if st \<noteq> []
                      then ops0 @ [\<lparr>op = ''add'', path = ''/fields/System.State'', val = st\<rparr>] else ops0
                  | None \<Rightarrow> ops0);
          ops2 = (case wu_iterationPath parsed of
                    Some i \<Rightarrow> if i \<noteq> []
                      then ops1 @ [\<lparr>op = ''add'', path = ''/fields/System.IterationPath'', val = i\<rparr>] else ops1
                  | None \<Rightarrow> ops1);
          ops3 = (case wu_fields parsed of
                    Some fs \<Rightarrow>
                      foldl (\<lambda>ops fv. ops @ [\<lparr>op = ''add'', path = ''/fields/'' @ fst fv, val = snd fv\<rparr>]) ops2 fs
                  | None \<Rightarrow> ops2)
      in ops3)"

text \<open>The array \<^verbatim>\<open>ops\<close> built by the case \<^verbatim>\<open>board_move\<close>.\<close>

definition board_move_ops :: "BoardMove \<Rightarrow> patch_op list" where
  "board_move_ops parsed =
     (let ops0 = [];
          ops1 = (case bm_stateName parsed of
                    Some st \<Rightarrow> if st \<noteq> []
                      then ops0 @ [\<lparr>op = ''add'', path = ''/fields/System.State'', val = st\<rparr>] else ops0
                  | None \<Rightarrow> ops0);
          ops2 = (case bm_iterationPath parsed of
                    Some i \<Rightarrow> if i \<noteq> []
                      then ops1 @ [\<lparr>op = ''add'', path = ''/fields/System.IterationPath'', val = i\<rparr>] else ops1
                  | None \<Rightarrow> ops1)
      in ops2)"

subsection \<open>The handler of tool calls\<close>

text \<open>
  What the body of the \<^verbatim>\<open>try\<close> block throws: the validation library's error with its
  issues, or another error.  What a tool returns: one text content, the result of the REST
  call printed by \<^verbatim>\<open>JSON.stringify(result, null, 2)\<close>.
\<close>

datatype thrown = ZodError "zod_issue list" | Thrown js_error

datatype tool_result = TextContent string

definition text_result :: "(js_error + json) \<times> event list \<Rightarrow> (thrown + tool_result) \<times> event list" where
  "text_result r =
     (case r of
        (Inl e, tr) \<Rightarrow> (Inl (Thrown e), tr)
      | (Inr result, tr) \<Rightarrow> (Inr (TextContent (JSON_stringify_indent 0 result)), tr))"

text \<open>The \<^verbatim>\<open>switch (name)\<close> inside the \<^verbatim>\<open>try\<close> block.\<close>

definition switch_name :: "network \<Rightarrow> ADOOpts \<Rightarrow> string \<Rightarrow> json option \<Rightarrow> event list \<Rightarrow> (thrown + tool_result) \<times> event list" where
  "switch_name net ado name args tr =
     (if name = ''list_projects'' then text_result (listProjects net ado tr)
      else if name = ''list_pipelines'' then text_result (listPipelines net ado tr)
      else if name = ''list_builds'' then
        (case ListBuildsSchema args of
           Inl is \<Rightarrow> (Inl (ZodError is), tr)
         | Inr parsed \<Rightarrow> text_result (listBuilds net ado parsed tr))
      else if name = ''wiql_query_team'' then
        (case WiqlQueryTeamSchema args of
           Inl is \<Rightarrow> (Inl (ZodError is), tr)
         | Inr parsed \<Rightarrow> text_result (wiqlTeam net ado (wq_team parsed) (wq_wiql parsed) tr))
      else if name = ''work_item_get'' then
        (case WorkItemGetSchema args of
           Inl is \<Rightarrow> (Inl (ZodError is), tr)
         | Inr parsed_id \<Rightarrow> text_result (getWorkItem net ado parsed_id tr))
      else if name = ''work_items_get'' then
        (case WorkItemsGetSchema args of
           Inl is \<Rightarrow> (Inl (ZodError is), tr)
         | Inr parsed \<Rightarrow> text_result (getWorkItems net ado (wg_ids parsed) (wg_fields parsed) tr))
      else if name = ''work_item_create'' then
        (case WorkItemCreateSchema args of
           Inl is \<Rightarrow> (Inl (ZodError is), tr)
         | Inr parsed \<Rightarrow>
             text_result (createWorkItem net ado (wc_type parsed) (work_item_create_ops parsed) tr))
      else if name = ''work_item_update'' then
        (case WorkItemUpdateSchema args of
           Inl is \<Rightarrow> (Inl (ZodError is), tr)
         | Inr parsed \<Rightarrow>
             text_result (updateWorkItem net ado (wu_id parsed) (work_item_update_ops parsed) tr))
      else if name = ''work_item_comment_add'' then
        (case WorkItemCommentAddSchema args of
           Inl is \<Rightarrow> (Inl (ZodError is), tr)
         | Inr parsed \<Rightarrow> text_result (addComment net ado (ca_id parsed) (ca_text parsed) tr))
      else if name = ''boards_list_columns'' then
        (case BoardsListColumnsSchema args of
           Inl is \<Rightarrow> (Inl (ZodError is), tr)
         | Inr parsed_team \<Rightarrow> text_result (listBoardColumns net ado parsed_team tr))
      else if name = ''iterations_list'' then
        (case IterationsListSchema args of
           Inl is \<Rightarrow> (Inl (ZodError is), tr)
         | Inr parsed \<Rightarrow>
             text_result (listTeamIterations net ado (il_team parsed) (il_timeframe parsed) tr))
      else if name = ''iteration_work_items'' then
        (case IterationWorkItemsSchema args of
           Inl is \<Rightarrow> (Inl (ZodError is), tr)
         | Inr parsed \<Rightarrow>
             text_result (getIterationWorkItems net ado (iw_team parsed) (iw_iterationId parsed) tr))
      else if name = ''board_move'' then
        (case BoardMoveSchema args of
           Inl is \<Rightarrow> (Inl (ZodError is), tr)
         | Inr parsed \<Rightarrow>
             text_result (updateWorkItem net ado (bm_id parsed) (board_move_ops parsed) tr))
      else (Inl (Thrown (McpError MethodNotFound (''Unknown tool: '' @ name))), tr))"

text \<open>\<^verbatim>\<open>e.path.join('.')\<close> and the message of the \<^verbatim>\<open>catch\<close> clause for a validation error.\<close>

fun path_elem_String :: "path_elem \<Rightarrow> string" where
  "path_elem_String (Key k) = k"
| "path_elem_String (Index i) = String_nat i"

definition issue_text :: "zod_issue \<Rightarrow> string" where
  "issue_text e = join ''.'' (map path_elem_String (issue_path e)) @ '': '' @ issue_message e"

text \<open>
  The handler registered for \<^verbatim>\<open>CallToolRequestSchema\<close>: the \<^verbatim>\<open>switch\<close> inside
  \<^verbatim>\<open>try\<close>, and the \<^verbatim>\<open>catch\<close> clause that rethrows every error as an \<^verbatim>\<open>McpError\<close>.
\<close>

definition callTool :: "network \<Rightarrow> ADOOpts \<Rightarrow> string \<Rightarrow> json option \<Rightarrow> event list \<Rightarrow> (js_error + tool_result) \<times> event list" where
  "callTool net ado name args tr =
     (case switch_name net ado name args tr of
        (Inr result, tr1) \<Rightarrow> (Inr result, tr1)
      | (Inl (ZodError is), tr1) \<Rightarrow>
          (Inl (McpError InvalidParams (''Invalid arguments: '' @ join '', '' (map issue_text is))), tr1)
      | (Inl (Thrown error), tr1) \<Rightarrow>
          (Inl (McpError InternalError (''Tool execution failed: '' @ error_toString error)), tr1))"

section \<open>The tool server, build 0.1.0\<close>

text \<open>
  The second build of the server in the repository (it announces version 0.1.0, the one
  above 1.0.0) declares the same thirteen tools and calls the same client, and validates
  nothing: it takes the members of \<^verbatim>\<open>args\<close> apart and passes them on.  The client is
  typed (\<^verbatim>\<open>team: string\<close>, \<^verbatim>\<open>id: number\<close>, ...), so this build is modelled on the
  arguments that have the types the client declares: \<open>typed\<close> reads them, and the handler
  is \<open>None\<close> on arguments of other types, which the model does not cover.  Absent
  arguments are covered: taking \<^verbatim>\<open>undefined\<close> apart throws a \<^verbatim>\<open>TypeError\<close>.
\<close>

definition typed :: "zod_issue list + 'a \<Rightarrow> 'a option" where
  "typed r = (case r of Inl is \<Rightarrow> None | Inr x \<Rightarrow> Some x)"

definition ListBuildsArgs :: "json option \<Rightarrow> ListBuildsOpts option" where
  "ListBuildsArgs args =
     typed (z_object (\<lambda>kvs.
       case z_both (z_member kvs ''definitions'' (z_optional (z_array (z_number None))))
           (z_both (z_member kvs ''branchName'' (z_optional (z_string None)))
           (z_both (z_member kvs ''top'' (z_optional (z_number None)))
                   (z_member kvs ''continuationToken'' (z_optional (z_string None))))) of
         Inl is \<Rightarrow> Inl is
       | Inr (ds, b, t, c) \<Rightarrow>
           Inr \<lparr>lb_definitions = ds, lb_branchName = b, lb_top = t, lb_continuationToken = c\<rparr>) args)"

definition WiqlQueryTeamArgs :: "json option \<Rightarrow> WiqlQueryTeam option" where
  "WiqlQueryTeamArgs args =
     typed (z_object (\<lambda>kvs.
       case z_both (z_member kvs ''team'' (z_string None)) (z_member kvs ''wiql'' (z_string None)) of
         Inl is \<Rightarrow> Inl is
       | Inr (t, w) \<Rightarrow> Inr \<lparr>wq_team = t, wq_wiql = w\<rparr>) args)"

definition WorkItemGetArgs :: "json option \<Rightarrow> int option" where
  "WorkItemGetArgs args = typed (WorkItemGetSchema args)"

definition WorkItemsGetArgs :: "json option \<Rightarrow> WorkItemsGet option" where
  "WorkItemsGetArgs args = typed (WorkItemsGetSchema args)"

definition WorkItemCreateArgs :: "json option \<Rightarrow> WorkItemCreate option" where
  "WorkItemCreateArgs args = typed (WorkItemCreateSchema args)"

definition WorkItemUpdateArgs :: "json option \<Rightarrow> WorkItemUpdate option" where
  "WorkItemUpdateArgs args = typed (WorkItemUpdateSchema args)"

definition WorkItemCommentAddArgs :: "json option \<Rightarrow> WorkItemCommentAdd option" where
  "WorkItemCommentAddArgs args =
     typed (z_object (\<lambda>kvs.
       case z_both (z_member kvs ''id'' (z_number None)) (z_member kvs ''text'' (z_string None)) of
         Inl is \<Rightarrow> Inl is
       | Inr (i, t) \<Rightarrow> Inr \<lparr>ca_id = i, ca_text = t\<rparr>) args)"

definition BoardsListColumnsArgs :: "json option \<Rightarrow> string option option" where
  "BoardsListColumnsArgs args = typed (BoardsListColumnsSchema args)"

definition IterationsListArgs :: "json option \<Rightarrow> IterationsList option" where
  "IterationsListArgs args = typed (IterationsListSchema args)"

definition IterationWorkItemsArgs :: "json option \<Rightarrow> IterationWorkItems option" where
  "IterationWorkItemsArgs args = typed (IterationWorkItemsSchema args)"

definition BoardMoveArgs :: "json option \<Rightarrow> BoardMove option" where
  "BoardMoveArgs args = typed (BoardMoveSchema args)"

text \<open>The array \<^verbatim>\<open>ops\<close> of this build's case \<^verbatim>\<open>work_item_create\<close>, written with spreads.\<close>

definition work_item_create_ops_v0 :: "WorkItemCreate \<Rightarrow> patch_op list" where
  "work_item_create_ops_v0 a =
     [\<lparr>op = ''add'', path = ''/fields/System.Title'', val = wc_title a\<rparr>]
     @ (case wc_areaPath a of
          Some x \<Rightarrow> if x \<noteq> [] then [\<lparr>op = ''add'', path = ''/fields/System.AreaPath'', val = x\<rparr>] else []
        | None \<Rightarrow> [])
     @ (case wc_iterationPath a of
          Some x \<Rightarrow> if x \<noteq> [] then [\<lparr>op = ''add'', path = ''/fields/System.IterationPath'', val = x\<rparr>] else []
        | None \<Rightarrow> [])
     @ (case wc_description a of
          Some x \<Rightarrow> if x \<noteq> [] then [\<lparr>op = ''add'', path = ''/fields/System.Description'', val = x\<rparr>] else []
        | None \<Rightarrow> [])"

text \<open>
  This build's case \<^verbatim>\<open>board_move\<close> fills an object \<^verbatim>\<open>fields\<close> and maps
  \<^verbatim>\<open>Object.entries(fields)\<close>, which lists the two keys in the order of their insertion.
\<close>

definition board_move_ops_v0 :: "BoardMove \<Rightarrow> patch_op list" where
  "board_move_ops_v0 a =
     (let fields0 = [];
          fields1 = (case bm_stateName a of
                       Some st \<Rightarrow> if st \<noteq> [] then fields0 @ [(''System.State'', st)] else fields0
                     | None \<Rightarrow> fields0);
          fields2 = (case bm_iterationPath a of
                       Some i \<Rightarrow> if i \<noteq> [] then fields1 @ [(''System.IterationPath'', i)] else fields1
                     | None \<Rightarrow> fields1)
      in map (\<lambda>kv. \<lparr>op = ''add'', path = ''/fields/'' @ fst kv, val = snd kv\<rparr>) fields2)"

definition text_result_v0 :: "(js_error + json) \<times> event list \<Rightarrow> (js_error + tool_result) \<times> event list" where
  "text_result_v0 r =
     (case r of
        (Inl e, tr) \<Rightarrow> (Inl e, tr)
      | (Inr result, tr) \<Rightarrow> (Inr (TextContent (JSON_stringify_indent 0 result)), tr))"

text \<open>
  \<^verbatim>\<open>const { a, ... } = args\<close> on absent arguments, and \<^verbatim>\<open>opts.top\<close> on absent options.
\<close>

definition cannot_destructure :: "string \<Rightarrow> js_error" where
  "cannot_destructure k =
     JsError ''TypeError'' (''Cannot destructure property '' @ [CHR 0x27] @ k @ [CHR 0x27]
       @ '' of '' @ [CHR 0x27] @ ''args'' @ [CHR 0x27] @ '' as it is undefined.'')"

definition cannot_read :: "string \<Rightarrow> js_error" where
  "cannot_read k =
     JsError ''TypeError'' (''Cannot read properties of undefined (reading '' @ [CHR 0x27] @ k @ [CHR 0x27] @ '')'')"

text \<open>
  One case of the \<^verbatim>\<open>switch\<close> that takes \<^verbatim>\<open>args\<close> apart: \<open>k\<close> is the first member
  it names, \<open>read\<close> the typed reading of the arguments, \<open>run\<close> the rest of the case.
\<close>

definition case_v0 ::
  "string \<Rightarrow> (json option \<Rightarrow> 'a option) \<Rightarrow> ('a \<Rightarrow> (js_error + json) \<times> event list) \<Rightarrow>
   json option \<Rightarrow> event list \<Rightarrow> ((js_error + tool_result) \<times> event list) option" where
  "case_v0 k read run args tr =
     (if args = None then Some (Inl (cannot_destructure k), tr)
      else case read args of
             None \<Rightarrow> None
           | Some a \<Rightarrow> Some (text_result_v0 (run a)))"

definition switch_name_v0 :: "network \<Rightarrow> ADOOpts \<Rightarrow> string \<Rightarrow> json option \<Rightarrow> event list \<Rightarrow> ((js_error + tool_result) \<times> event list) option" where
  "switch_name_v0 net ado name args tr =
     (if name = ''list_projects'' then Some (text_result_v0 (listProjects net ado tr))
      else if name = ''list_pipelines'' then Some (text_result_v0 (listPipelines net ado tr))
      else if name = ''list_builds'' then
        (if args = None then Some (Inl (cannot_read ''top''), tr)
         else case ListBuildsArgs args of
                None \<Rightarrow> None
              | Some buildArgs \<Rightarrow> Some (text_result_v0 (listBuilds net ado buildArgs tr)))
      else if name = ''wiql_query_team'' then
        case_v0 ''team'' WiqlQueryTeamArgs (\<lambda>a. wiqlTeam net ado (wq_team a) (wq_wiql a) tr) args tr
      else if name = ''work_item_get'' then
        case_v0 ''id'' WorkItemGetArgs (\<lambda>a. getWorkItem net ado a tr) args tr
      else if name = ''work_items_get'' then
        case_v0 ''ids'' WorkItemsGetArgs (\<lambda>a. getWorkItems net ado (wg_ids a) (wg_fields a) tr) args tr
      else if name = ''work_item_create'' then
        case_v0 ''type'' WorkItemCreateArgs
          (\<lambda>a. createWorkItem net ado (wc_type a) (work_item_create_ops_v0 a) tr) args tr
      else if name = ''work_item_update'' then
        case_v0 ''id'' WorkItemUpdateArgs
          (\<lambda>a. updateWorkItem net ado (wu_id a) (work_item_update_ops a) tr) args tr
      else if name = ''work_item_comment_add'' then
        case_v0 ''id'' WorkItemCommentAddArgs (\<lambda>a. addComment net ado (ca_id a) (ca_text a) tr) args tr
      else if name = ''boards_list_columns'' then
        case_v0 ''team'' BoardsListColumnsArgs (\<lambda>a. listBoardColumns net ado a tr) args tr
      else if name = ''iterations_list'' then
        case_v0 ''team'' IterationsListArgs
          (\<lambda>a. listTeamIterations net ado (il_team a) (il_timeframe a) tr) args tr
      else if name = ''iteration_work_items'' then
        case_v0 ''team'' IterationWorkItemsArgs
          (\<lambda>a. getIterationWorkItems net ado (iw_team a) (iw_iterationId a) tr) args tr
      else if name = ''board_move'' then
        case_v0 ''id'' BoardMoveArgs
          (\<lambda>a. updateWorkItem net ado (bm_id a) (board_move_ops_v0 a) tr) args tr
      else Some (Inl (McpError MethodNotFound (''Unknown tool: '' @ name)), tr))"

text \<open>
  This build's handler: its \<^verbatim>\<open>catch\<close> clause rethrows every error as an internal error,
  with \<^verbatim>\<open>error.message\<close> (every error here is an instance of \<^verbatim>\<open>Error\<close>).
\<close>

definition callTool_v0 :: "network \<Rightarrow> ADOOpts \<Rightarrow> string \<Rightarrow> json option \<Rightarrow> event list \<Rightarrow> ((js_error + tool_result) \<times> event list) option" where
  "callTool_v0 net ado name args tr =
     (case switch_name_v0 net ado name args tr of
        None \<Rightarrow> None
      | Some (Inr result, tr1) \<Rightarrow> Some (Inr result, tr1)
      | Some (Inl error, tr1) \<Rightarrow>
          Some (Inl (McpError InternalError (''Error executing tool '' @ name @ '': '' @ error_message error)), tr1))"

section \<open>Vocabulary of the properties\<close>

text \<open>The request \<^verbatim>\<open>adoGet\<close> sends, and the ones \<^verbatim>\<open>adoPost\<close> and \<^verbatim>\<open>adoPatch\<close> send.\<close>

definition get_request :: "string \<Rightarrow> string \<Rightarrow> http_request" where
  "get_request url pat =
     \<lparr>req_method = ''GET'', req_url = url,
      req_headers = [(''Authorization'', authHeader pat)], req_body = None\<rparr>"

definition send_request :: "string \<Rightarrow> string \<Rightarrow> string \<Rightarrow> string \<Rightarrow> string \<Rightarrow> http_request" where
  "send_request m url pat body contentType =
     \<lparr>req_method = m, req_url = url,
      req_headers = [(''Authorization'', authHeader pat), (''Content-Type'', contentType)],
      req_body = Some body\<rparr>"

text \<open>A status of the half-open interval from 200 to 300; a status on which a GET is tried again.\<close>

definition is_2xx :: "nat \<Rightarrow> bool" where
  "is_2xx st \<longleftrightarrow> 200 \<le> st \<and> st < 300"

definition retryable :: "nat \<Rightarrow> bool" where
  "retryable st \<longleftrightarrow> st = 429 \<or> 500 \<le> st"

text \<open>
  The effects of \<open>k\<close> failed attempts, numbered from 1: attempt \<open>a\<close> sends the request and
  is followed by a sleep of \<open>250 * a\<close> milliseconds.
\<close>

definition failed_attempts :: "http_request \<Rightarrow> nat \<Rightarrow> event list" where
  "failed_attempts req k = concat (map (\<lambda>a. [Request req, Sleep (250 * a)]) [1..<Suc k])"

text \<open>
  Remote sides for the examples: one that answers the \<open>n\<close>-th request with the \<open>n\<close>-th
  status of a list and with 200 afterwards, the body being the JSON value \<^verbatim>\<open>{"count":0}\<close>.
\<close>

definition scripted :: "nat list \<Rightarrow> network" where
  "scripted sts n req =
     Inr \<lparr>statusCode = (if n < length sts then sts ! n else 200),
          body_json = Inr (JObj [(''count'', JNum 0)])\<rparr>"

text \<open>
  One REST call: the effects \<open>tr'\<close> of an invocation that started in \<open>tr\<close> are the
  request \<open>req\<close> sent once, or, for a GET, sent up to 3 times by the retry loop, with
  sleeps in between and nothing else.
\<close>

definition one_call :: "http_request \<Rightarrow> event list \<Rightarrow> event list \<Rightarrow> bool" where
  "one_call req tr tr' \<longleftrightarrow>
     (\<exists>es k. tr' = tr @ es \<and> 1 \<le> k \<and> k \<le> 3 \<and> requests_of es = replicate k req \<and>
        (req_method req \<noteq> ''GET'' \<longrightarrow> es = [Request req]))"

text \<open>HTTP Basic authentication with an empty user name and the token as the password.\<close>

definition basic_auth :: "string \<Rightarrow> http_request \<Rightarrow> bool" where
  "basic_auth pat req \<longleftrightarrow>
     map_of (req_headers req) ''Authorization'' = Some (''Basic '' @ base64 ('':'' @ pat))"

text \<open>The thirteen tool names: those the handler of \<^verbatim>\<open>ListToolsRequestSchema\<close> lists.\<close>

definition tool_names :: "string list" where
  "tool_names =
     [''list_projects'', ''list_pipelines'', ''list_builds'', ''wiql_query_team'', ''work_item_get'',
      ''work_items_get'', ''work_item_create'', ''work_item_update'', ''work_item_comment_add'',
      ''boards_list_columns'', ''iterations_list'', ''iteration_work_items'', ''board_move'']"

text \<open>
  The issues the schema of the tool \<open>name\<close> finds in the arguments, if it rejects them:
  \<open>None\<close> when it accepts them, and also for the two tools that read no arguments and
  for a name that is no tool.
\<close>

definition schema_issues :: "zod_issue list + 'a \<Rightarrow> zod_issue list option" where
  "schema_issues r = (case r of Inl is \<Rightarrow> Some is | Inr x \<Rightarrow> None)"

definition tool_rejects :: "string \<Rightarrow> json option \<Rightarrow> zod_issue list option" where
  "tool_rejects name args =
     (if name = ''list_builds'' then schema_issues (ListBuildsSchema args)
      else if name = ''wiql_query_team'' then schema_issues (WiqlQueryTeamSchema args)
      else if name = ''work_item_get'' then schema_issues (WorkItemGetSchema args)
      else if name = ''work_items_get'' then schema_issues (WorkItemsGetSchema args)
      else if name = ''work_item_create'' then schema_issues (WorkItemCreateSchema args)
      else if name = ''work_item_update'' then schema_issues (WorkItemUpdateSchema args)
      else if name = ''work_item_comment_add'' then schema_issues (WorkItemCommentAddSchema args)
      else if name = ''boards_list_columns'' then schema_issues (BoardsListColumnsSchema args)
      else if name = ''iterations_list'' then schema_issues (IterationsListSchema args)
      else if name = ''iteration_work_items'' then schema_issues (IterationWorkItemsSchema args)
      else if name = ''board_move'' then schema_issues (BoardMoveSchema args)
      else None)"


text \<open>An organisation for the examples.\<close>

definition contoso :: ADOOpts where
  "contoso = \<lparr>ado_org = ''contoso'', ado_project = Some ''Web Shop'', ado_pat = ''secret''\<rparr>"

text \<open>One REST call whose request carries the Basic authentication of the token.\<close>

definition authorized_call :: "string \<Rightarrow> event list \<Rightarrow> event list \<Rightarrow> bool" where
  "authorized_call pat tr tr' \<longleftrightarrow> (\<exists>req. basic_auth pat req \<and> one_call req tr tr')"

text \<open>Options of \<^verbatim>\<open>listBuilds\<close> for the examples.\<close>

definition builds_example :: ListBuildsOpts where
  "builds_example =
     \<lparr>lb_definitions = Some [1, 42], lb_branchName = Some ''refs/heads/main'', lb_top = Some 25,
      lb_continuationToken = None\<rparr>"

text \<open>
  The JSON-patch document \<open>ops\<close> of a \<^verbatim>\<open>work_item_create\<close> with the arguments \<open>a\<close>: it
  starts with the title; it has an operation on the path of the description, the
  iteration path and the area path exactly when that argument is truthy; every operation
  after the first is an \<^verbatim>\<open>add\<close> of one of these three arguments' values; no path
  occurs twice.
\<close>

definition create_document :: "WorkItemCreate \<Rightarrow> patch_op list \<Rightarrow> bool" where
  "create_document a ops \<longleftrightarrow>
     ops \<noteq> [] \<and>
     hd ops = \<lparr>op = ''add'', path = ''/fields/System.Title'', val = wc_title a\<rparr> \<and>
     ((\<exists>p\<in>set ops. path p = ''/fields/System.Description'') \<longleftrightarrow> truthy_string (wc_description a)) \<and>
     ((\<exists>p\<in>set ops. path p = ''/fields/System.IterationPath'') \<longleftrightarrow> truthy_string (wc_iterationPath a)) \<and>
     ((\<exists>p\<in>set ops. path p = ''/fields/System.AreaPath'') \<longleftrightarrow> truthy_string (wc_areaPath a)) \<and>
     (\<forall>p\<in>set (tl ops).
        op p = ''add'' \<and>
        (path p = ''/fields/System.Description'' \<and> wc_description a = Some (val p) \<or>
         path p = ''/fields/System.IterationPath'' \<and> wc_iterationPath a = Some (val p) \<or>
         path p = ''/fields/System.AreaPath'' \<and> wc_areaPath a = Some (val p))) \<and>
     distinct (map path ops)"

text \<open>Arguments of \<^verbatim>\<open>work_item_create\<close> for the examples, and what the schema reads from them.\<close>

definition create_example :: "json option" where
  "create_example =
     Some (JObj [(''type'', JStr ''Bug''), (''title'', JStr ''Crash on startup''),
                 (''description'', JStr ''Steps''), (''iterationPath'', JStr []),
                 (''areaPath'', JStr ''Shop'')])"

definition create_example_parsed :: WorkItemCreate where
  "create_example_parsed =
     \<lparr>wc_type = ''Bug'', wc_title = ''Crash on startup'', wc_description = Some ''Steps'',
      wc_iterationPath = Some [], wc_areaPath = Some ''Shop''\<rparr>"

text \<open>
  The arguments of \<^verbatim>\<open>board_move\<close> for an id, a state name and an iteration path, each of
  the latter two given or not, and the arguments of \<^verbatim>\<open>work_item_update\<close> for the same
  id, that state, that iteration path and no \<^verbatim>\<open>fields\<close>.
\<close>

definition optional_member :: "string \<Rightarrow> string option \<Rightarrow> (string \<times> json) list" where
  "optional_member k v = (case v of Some s \<Rightarrow> [(k, JStr s)] | None \<Rightarrow> [])"

definition board_move_args :: "int \<Rightarrow> string option \<Rightarrow> string option \<Rightarrow> json option" where
  "board_move_args wid stateName iterationPath =
     Some (JObj ([(''id'', JNum wid)] @ optional_member ''stateName'' stateName
                 @ optional_member ''iterationPath'' iterationPath))"

definition work_item_update_args :: "int \<Rightarrow> string option \<Rightarrow> string option \<Rightarrow> json option" where
  "work_item_update_args wid state iterationPath =
     Some (JObj ([(''id'', JNum wid)] @ optional_member ''state'' state
                 @ optional_member ''iterationPath'' iterationPath))"

section \<open>Properties of the REST client\<close>

lemma requests_of_append: "requests_of (xs @ ys) = requests_of xs @ requests_of ys"
  by (induction xs rule: requests_of.induct) simp_all

lemma sleeps_of_append: "sleeps_of (xs @ ys) = sleeps_of xs @ sleeps_of ys"
  by (induction xs rule: sleeps_of.induct) simp_all

lemma retryable_not_2xx: "retryable st \<Longrightarrow> \<not> is_2xx st"
  by (auto simp: retryable_def is_2xx_def)

subsection \<open>The retry loop of \<^verbatim>\<open>adoGet\<close>\<close>

lemma adoGet_loop_retry:
  assumes "i < 3"
    and "net (length (requests_of tr)) (get_request url pat) = Inr res"
    and "retryable (statusCode res)"
  shows "adoGet_loop net url pat i tr =
         adoGet_loop net url pat (Suc i) (tr @ [Request (get_request url pat), Sleep (250 * Suc i)])"
proof -
  have "\<not> (200 \<le> statusCode res \<and> statusCode res < 300)"
    using assms(3) by (auto simp: retryable_def)
  moreover have "statusCode res = 429 \<or> 500 \<le> statusCode res"
    using assms(3) by (simp add: retryable_def)
  ultimately show ?thesis
    using assms(1,2)
    by (subst adoGet_loop.simps) (auto simp: request_def sleep_def get_request_def)
qed

lemma adoGet_loop_attempts:
  assumes "i + k \<le> 3"
    and "\<forall>j<k. \<exists>res. net (length (requests_of tr) + j) (get_request url pat) = Inr res \<and> retryable (statusCode res)"
  shows "adoGet_loop net url pat i tr =
         adoGet_loop net url pat (i + k)
           (tr @ concat (map (\<lambda>a. [Request (get_request url pat), Sleep (250 * a)]) [Suc i..<Suc (i + k)]))"
  using assms
proof (induction k arbitrary: i tr)
  case 0
  then show ?case by simp
next
  case (Suc k)
  from Suc.prems(2) obtain res where
    res: "net (length (requests_of tr)) (get_request url pat) = Inr res" "retryable (statusCode res)"
    by force
  let ?tr = "tr @ [Request (get_request url pat), Sleep (250 * Suc i)]"
  have step: "adoGet_loop net url pat i tr = adoGet_loop net url pat (Suc i) ?tr"
    using Suc.prems(1) res by (intro adoGet_loop_retry) auto
  have len: "length (requests_of ?tr) = Suc (length (requests_of tr))"
    by (simp add: requests_of_append)
  have "\<forall>j<k. \<exists>res. net (length (requests_of ?tr) + j) (get_request url pat) = Inr res \<and> retryable (statusCode res)"
  proof (intro allI impI)
    fix j assume "j < k"
    then have "Suc j < Suc k" by simp
    with Suc.prems(2) have "\<exists>res. net (length (requests_of tr) + Suc j) (get_request url pat) = Inr res \<and> retryable (statusCode res)"
      by blast
    then show "\<exists>res. net (length (requests_of ?tr) + j) (get_request url pat) = Inr res \<and> retryable (statusCode res)"
      unfolding len by simp
  qed
  then have "\<forall>j<k. \<exists>res. net (length (requests_of ?tr) + j) (get_request url pat) = Inr res \<and> retryable (statusCode res)"
    and "Suc i + k \<le> 3" using Suc.prems(1) by simp_all
  then have ih: "adoGet_loop net url pat (Suc i) ?tr =
      adoGet_loop net url pat (Suc i + k)
        (?tr @ concat (map (\<lambda>a. [Request (get_request url pat), Sleep (250 * a)]) [Suc (Suc i)..<Suc (Suc i + k)]))"
    by (intro Suc.IH) simp_all
  have up: "[Suc i..<Suc (i + Suc k)] = Suc i # [Suc (Suc i)..<Suc (Suc i + k)]"
    by (simp add: upt_conv_Cons del: upt_Suc)
  show ?case
    unfolding step ih up by simp
qed

text \<open>
  What \<^verbatim>\<open>adoGet\<close> does after \<open>k\<close> responses that ask for a retry: it gives up when
  \<open>k = 3\<close>, and otherwise the next response, or the rejection of the next request, decides.
\<close>

lemma adoGet_after_attempts:
  assumes "k \<le> 3"
    and "\<forall>j<k. \<exists>res. net (length (requests_of tr) + j) (get_request url pat) = Inr res \<and> retryable (statusCode res)"
  shows "k = 3 \<Longrightarrow>
           adoGet net url pat tr =
             (Inl (Error (''Retries exceeded: GET '' @ url)), tr @ failed_attempts (get_request url pat) 3)"
    and "k < 3 \<Longrightarrow> net (length (requests_of tr) + k) (get_request url pat) = Inr res \<Longrightarrow>
           is_2xx (statusCode res) \<or> \<not> retryable (statusCode res) \<Longrightarrow>
           adoGet net url pat tr =
             (if is_2xx (statusCode res) then body_json res
              else Inl (Error (String_nat (statusCode res) @ '' GET '' @ url)),
              tr @ failed_attempts (get_request url pat) k @ [Request (get_request url pat)])"
    and "k < 3 \<Longrightarrow> net (length (requests_of tr) + k) (get_request url pat) = Inl e \<Longrightarrow>
           adoGet net url pat tr =
             (Inl e, tr @ failed_attempts (get_request url pat) k @ [Request (get_request url pat)])"
proof -
  let ?req = "get_request url pat"
  have loop: "adoGet net url pat tr = adoGet_loop net url pat k (tr @ failed_attempts ?req k)"
    using adoGet_loop_attempts[of 0 k net tr url pat] assms
    by (simp add: adoGet_def failed_attempts_def)
  have len: "length (requests_of (tr @ failed_attempts ?req k)) = length (requests_of tr) + k"
    by (induction k) (simp_all add: failed_attempts_def requests_of_append)
  show "k = 3 \<Longrightarrow>
           adoGet net url pat tr =
             (Inl (Error (''Retries exceeded: GET '' @ url)), tr @ failed_attempts ?req 3)"
    unfolding loop by (subst adoGet_loop.simps) simp
  show "k < 3 \<Longrightarrow> net (length (requests_of tr) + k) ?req = Inr res \<Longrightarrow>
           is_2xx (statusCode res) \<or> \<not> retryable (statusCode res) \<Longrightarrow>
           adoGet net url pat tr =
             (if is_2xx (statusCode res) then body_json res
              else Inl (Error (String_nat (statusCode res) @ '' GET '' @ url)),
              tr @ failed_attempts ?req k @ [Request ?req])"
    unfolding loop using len
    by (subst adoGet_loop.simps)
       (auto simp: request_def get_request_def is_2xx_def retryable_def)
  show "k < 3 \<Longrightarrow> net (length (requests_of tr) + k) ?req = Inl e \<Longrightarrow>
           adoGet net url pat tr = (Inl e, tr @ failed_attempts ?req k @ [Request ?req])"
    unfolding loop using len
    by (subst adoGet_loop.simps) (auto simp: request_def get_request_def)
qed

text \<open>
  C1. A GET whose response has a status from 200 to 299 returns the outcome of parsing that
  response's body as JSON.  On status 429 or a status of 500 or more the GET is tried
  again, at most 3 attempts in all, attempt number \<open>a\<close> being followed by a sleep of
  \<open>250 * a\<close> milliseconds; after the third such response the call fails with the error
  \<^verbatim>\<open>Retries exceeded\<close>.  Any other status outside 200 to 299 fails the call at once: no
  sleep and no further request follow.
\<close>

theorem adoGet_retry_policy:
  assumes "k \<le> 3"
    and "\<forall>j<k. \<exists>res. net (length (requests_of tr) + j) (get_request url pat) = Inr res \<and> retryable (statusCode res)"
  shows "(k = 3 \<longrightarrow>
            adoGet net url pat tr =
              (Inl (Error (''Retries exceeded: GET '' @ url)), tr @ failed_attempts (get_request url pat) 3)) \<and>
         (k < 3 \<longrightarrow>
            (\<forall>res. net (length (requests_of tr) + k) (get_request url pat) = Inr res \<longrightarrow>
               (is_2xx (statusCode res) \<longrightarrow>
                  adoGet net url pat tr =
                    (body_json res, tr @ failed_attempts (get_request url pat) k @ [Request (get_request url pat)])) \<and>
               (\<not> is_2xx (statusCode res) \<and> \<not> retryable (statusCode res) \<longrightarrow>
                  adoGet net url pat tr =
                    (Inl (Error (String_nat (statusCode res) @ '' GET '' @ url)),
                     tr @ failed_attempts (get_request url pat) k @ [Request (get_request url pat)]))))"
  using adoGet_after_attempts(1)[of k net tr url pat]
    adoGet_after_attempts(2)[of k net tr url pat] assms
  by auto

theorem adoGet_retry_policy_witness:
  "adoGet (scripted [503, 429]) ''u'' ''p'' [] =
     (Inr (JObj [(''count'', JNum 0)]),
      [Request (get_request ''u'' ''p''), Sleep 250, Request (get_request ''u'' ''p''), Sleep 500,
       Request (get_request ''u'' ''p'')])"
  using adoGet_retry_policy[of 2 "scripted [503, 429]" "[]" "''u''" "''p''"]
  by (simp add: scripted_def retryable_def is_2xx_def failed_attempts_def less_Suc_eq numeral_2_eq_2)


subsection \<open>POST and PATCH\<close>

lemma adoPost_outcome:
  "adoPost net url pat body contentType tr =
     ((case net (length (requests_of tr)) (send_request ''POST'' url pat body contentType) of
         Inl e \<Rightarrow> Inl e
       | Inr res \<Rightarrow>
           if is_2xx (statusCode res) then body_json res
           else Inl (Error (String_nat (statusCode res) @ '' POST '' @ url))),
      tr @ [Request (send_request ''POST'' url pat body contentType)])"
  by (auto simp: adoPost_def request_def send_request_def is_2xx_def split: sum.splits)

lemma adoPatch_outcome:
  "adoPatch net url pat body contentType tr =
     ((case net (length (requests_of tr)) (send_request ''PATCH'' url pat body contentType) of
         Inl e \<Rightarrow> Inl e
       | Inr res \<Rightarrow>
           if is_2xx (statusCode res) then body_json res
           else Inl (Error (String_nat (statusCode res) @ '' PATCH '' @ url))),
      tr @ [Request (send_request ''PATCH'' url pat body contentType)])"
  by (auto simp: adoPatch_def request_def send_request_def is_2xx_def split: sum.splits)

text \<open>
  C2. A POST and a PATCH of the client each send exactly one request, whatever the
  response, and never sleep or send again: when the response has a status from 200 to 299
  the call returns the outcome of parsing its body as JSON, and on any other status it
  throws an error.
\<close>

theorem post_patch_single_request:
  "(snd (adoPost net url pat body contentType tr) = tr @ [Request (send_request ''POST'' url pat body contentType)] \<and>
    (\<forall>res. net (length (requests_of tr)) (send_request ''POST'' url pat body contentType) = Inr res \<longrightarrow>
       fst (adoPost net url pat body contentType tr) =
         (if is_2xx (statusCode res) then body_json res
          else Inl (Error (String_nat (statusCode res) @ '' POST '' @ url))))) \<and>
   (snd (adoPatch net url pat body contentType tr) = tr @ [Request (send_request ''PATCH'' url pat body contentType)] \<and>
    (\<forall>res. net (length (requests_of tr)) (send_request ''PATCH'' url pat body contentType) = Inr res \<longrightarrow>
       fst (adoPatch net url pat body contentType tr) =
         (if is_2xx (statusCode res) then body_json res
          else Inl (Error (String_nat (statusCode res) @ '' PATCH '' @ url)))))"
  by (simp add: adoPost_outcome adoPatch_outcome)

theorem post_patch_single_request_witness:
  "adoPost (scripted [503]) ''u'' ''p'' ''{}'' ''application/json'' [] =
     (Inl (Error ''503 POST u''), [Request (send_request ''POST'' ''u'' ''p'' ''{}'' ''application/json'')]) \<and>
   adoPatch (scripted [200]) ''u'' ''p'' ''[]'' ''application/json-patch+json'' [] =
     (Inr (JObj [(''count'', JNum 0)]),
      [Request (send_request ''PATCH'' ''u'' ''p'' ''[]'' ''application/json-patch+json'')])"
proof -
  have r1: "scripted [503] (length (requests_of [])) (send_request ''POST'' ''u'' ''p'' ''{}'' ''application/json'')
      = Inr \<lparr>statusCode = 503, body_json = Inr (JObj [(''count'', JNum 0)])\<rparr>"
    by (simp add: scripted_def)
  have r2: "scripted [200] (length (requests_of [])) (send_request ''PATCH'' ''u'' ''p'' ''[]'' ''application/json-patch+json'')
      = Inr \<lparr>statusCode = 200, body_json = Inr (JObj [(''count'', JNum 0)])\<rparr>"
    by (simp add: scripted_def)
  have s: "String_nat 503 = ''503''"
    by (simp add: String_nat.simps digit_char_def)
  from post_patch_single_request[of "scripted [503]" "''u''" "''p''" "''{}''" "''application/json''" "[]"]
  have "snd (adoPost (scripted [503]) ''u'' ''p'' ''{}'' ''application/json'' []) =
          [Request (send_request ''POST'' ''u'' ''p'' ''{}'' ''application/json'')]"
    and "fst (adoPost (scripted [503]) ''u'' ''p'' ''{}'' ''application/json'' []) = Inl (Error ''503 POST u'')"
    using r1 by (simp_all add: is_2xx_def s)
  moreover
  from post_patch_single_request[of "scripted [200]" "''u''" "''p''" "''[]''" "''application/json-patch+json''" "[]"]
  have "snd (adoPatch (scripted [200]) ''u'' ''p'' ''[]'' ''application/json-patch+json'' []) =
          [Request (send_request ''PATCH'' ''u'' ''p'' ''[]'' ''application/json-patch+json'')]"
    and "fst (adoPatch (scripted [200]) ''u'' ''p'' ''[]'' ''application/json-patch+json'' []) =
          Inr (JObj [(''count'', JNum 0)])"
    using r2 by (simp_all add: is_2xx_def)
  ultimately show ?thesis
    by (simp add: prod_eq_iff)
qed

subsection \<open>Error messages\<close>

text \<open>
  Against C3 as stated: after three responses with status 503 the GET throws the error
  \<^verbatim>\<open>Retries exceeded: GET <url>\<close>, whose message does not contain the status code.
\<close>

theorem retries_exceeded_message_counterexample:
  "fst (adoGet (scripted [503, 503, 503]) ''https://contoso.visualstudio.com/_apis/projects?api-version=6.0'' ''p'' [])
     = Inl (Error ''Retries exceeded: GET https://contoso.visualstudio.com/_apis/projects?api-version=6.0'') \<and>
   \<not> sublist (String_nat 503)
       (error_message (Error ''Retries exceeded: GET https://contoso.visualstudio.com/_apis/projects?api-version=6.0''))"
proof -
  have "String_nat 503 = ''503''"
    by (simp add: String_nat.simps digit_char_def)
  moreover have "\<not> sublist ''503'' ''Retries exceeded: GET https://contoso.visualstudio.com/_apis/projects?api-version=6.0''"
    by (simp add: sublist_code)
  moreover have "fst (adoGet (scripted [503, 503, 503]) ''https://contoso.visualstudio.com/_apis/projects?api-version=6.0'' ''p'' [])
     = Inl (Error ''Retries exceeded: GET https://contoso.visualstudio.com/_apis/projects?api-version=6.0'')"
    by (simp add: adoGet_def adoGet_loop.simps request_def sleep_def scripted_def)
  ultimately show ?thesis by simp
qed


lemma message_carries:
  "sublist s (s @ m @ u)" "sublist u (s @ m @ u)"
  by (simp, metis append_assoc sublist_append_leftI)

text \<open>
  C3, amended. The error thrown for a response with a status outside 200 to 299 carries
  the status code and the request URL in its message for POST, for PATCH and for a GET
  that fails at once (a status that is not retried).  The error thrown when the attempts
  of a GET are exhausted has the message \<^verbatim>\<open>Retries exceeded: GET <url>\<close>: it carries the
  URL and no status code.
\<close>

theorem http_error_messages:
  "(\<forall>res. net (length (requests_of tr)) (send_request ''POST'' url pat body contentType) = Inr res \<and>
          \<not> is_2xx (statusCode res) \<longrightarrow>
      (\<exists>e. fst (adoPost net url pat body contentType tr) = Inl e \<and>
           sublist (String_nat (statusCode res)) (error_message e) \<and> sublist url (error_message e))) \<and>
   (\<forall>res. net (length (requests_of tr)) (send_request ''PATCH'' url pat body contentType) = Inr res \<and>
          \<not> is_2xx (statusCode res) \<longrightarrow>
      (\<exists>e. fst (adoPatch net url pat body contentType tr) = Inl e \<and>
           sublist (String_nat (statusCode res)) (error_message e) \<and> sublist url (error_message e))) \<and>
   (\<forall>k res. k < 3 \<and>
          (\<forall>j<k. \<exists>r. net (length (requests_of tr) + j) (get_request url pat) = Inr r \<and> retryable (statusCode r)) \<and>
          net (length (requests_of tr) + k) (get_request url pat) = Inr res \<and>
          \<not> is_2xx (statusCode res) \<and> \<not> retryable (statusCode res) \<longrightarrow>
      (\<exists>e. fst (adoGet net url pat tr) = Inl e \<and>
           sublist (String_nat (statusCode res)) (error_message e) \<and> sublist url (error_message e))) \<and>
   ((\<forall>j<3. \<exists>r. net (length (requests_of tr) + j) (get_request url pat) = Inr r \<and> retryable (statusCode r)) \<longrightarrow>
      (\<exists>e. fst (adoGet net url pat tr) = Inl e \<and>
           error_message e = ''Retries exceeded: GET '' @ url \<and> sublist url (error_message e)))"
proof (intro conjI allI impI)
  fix res
  assume "net (length (requests_of tr)) (send_request ''POST'' url pat body contentType) = Inr res \<and>
          \<not> is_2xx (statusCode res)"
  then show "\<exists>e. fst (adoPost net url pat body contentType tr) = Inl e \<and>
           sublist (String_nat (statusCode res)) (error_message e) \<and> sublist url (error_message e)"
    using message_carries[where s = "String_nat (statusCode res)" and m = "'' POST ''" and u = url]
    by (simp add: adoPost_outcome)
next
  fix res
  assume "net (length (requests_of tr)) (send_request ''PATCH'' url pat body contentType) = Inr res \<and>
          \<not> is_2xx (statusCode res)"
  then show "\<exists>e. fst (adoPatch net url pat body contentType tr) = Inl e \<and>
           sublist (String_nat (statusCode res)) (error_message e) \<and> sublist url (error_message e)"
    using message_carries[where s = "String_nat (statusCode res)" and m = "'' PATCH ''" and u = url]
    by (simp add: adoPatch_outcome)
next
  fix k res
  assume a: "k < 3 \<and>
          (\<forall>j<k. \<exists>r. net (length (requests_of tr) + j) (get_request url pat) = Inr r \<and> retryable (statusCode r)) \<and>
          net (length (requests_of tr) + k) (get_request url pat) = Inr res \<and>
          \<not> is_2xx (statusCode res) \<and> \<not> retryable (statusCode res)"
  then have "adoGet net url pat tr =
      (Inl (Error (String_nat (statusCode res) @ '' GET '' @ url)),
       tr @ failed_attempts (get_request url pat) k @ [Request (get_request url pat)])"
    using adoGet_after_attempts(2)[of k net tr url pat res] by simp
  then show "\<exists>e. fst (adoGet net url pat tr) = Inl e \<and>
           sublist (String_nat (statusCode res)) (error_message e) \<and> sublist url (error_message e)"
    using message_carries[where s = "String_nat (statusCode res)" and m = "'' GET ''" and u = url]
    by simp
next
  assume "\<forall>j<3. \<exists>r. net (length (requests_of tr) + j) (get_request url pat) = Inr r \<and> retryable (statusCode r)"
  then have "adoGet net url pat tr =
      (Inl (Error (''Retries exceeded: GET '' @ url)), tr @ failed_attempts (get_request url pat) 3)"
    using adoGet_after_attempts(1)[of 3 net tr url pat] by simp
  then show "\<exists>e. fst (adoGet net url pat tr) = Inl e \<and>
           error_message e = ''Retries exceeded: GET '' @ url \<and> sublist url (error_message e)"
    using message_carries(2)[where s = "[]" and m = "''Retries exceeded: GET ''" and u = url]
    by simp
qed

theorem http_error_messages_witness:
  "(\<exists>e. fst (adoPost (scripted [404]) ''u'' ''p'' ''{}'' ''application/json'' []) = Inl e \<and>
        sublist ''404'' (error_message e) \<and> sublist ''u'' (error_message e)) \<and>
   (\<exists>e. fst (adoPatch (scripted [404]) ''u'' ''p'' ''{}'' ''application/json'' []) = Inl e \<and>
        sublist ''404'' (error_message e) \<and> sublist ''u'' (error_message e)) \<and>
   (\<exists>e. fst (adoGet (scripted [503, 404]) ''u'' ''p'' []) = Inl e \<and>
        sublist ''404'' (error_message e) \<and> sublist ''u'' (error_message e)) \<and>
   (\<exists>e. fst (adoGet (scripted [503, 429, 500]) ''u'' ''p'' []) = Inl e \<and>
        error_message e = ''Retries exceeded: GET u'' \<and> sublist ''u'' (error_message e))"
proof -
  have s: "String_nat 404 = ''404''"
    by (simp add: String_nat.simps digit_char_def)
  note th = http_error_messages[of "scripted [404]" "[]" "''u''" "''p''" "''{}''" "''application/json''"]
  note tg = http_error_messages[of "scripted [503, 404]" "[]" "''u''" "''p''" "''{}''" "''application/json''"]
  note te = http_error_messages[of "scripted [503, 429, 500]" "[]" "''u''" "''p''" "''{}''" "''application/json''"]
  have 1: "\<exists>e. fst (adoPost (scripted [404]) ''u'' ''p'' ''{}'' ''application/json'' []) = Inl e \<and>
        sublist ''404'' (error_message e) \<and> sublist ''u'' (error_message e)"
    using th[THEN conjunct1, rule_format, of "\<lparr>statusCode = 404, body_json = Inr (JObj [(''count'', JNum 0)])\<rparr>"]
    by (simp add: scripted_def is_2xx_def s)
  have 2: "\<exists>e. fst (adoPatch (scripted [404]) ''u'' ''p'' ''{}'' ''application/json'' []) = Inl e \<and>
        sublist ''404'' (error_message e) \<and> sublist ''u'' (error_message e)"
    using th[THEN conjunct2, THEN conjunct1, rule_format, of "\<lparr>statusCode = 404, body_json = Inr (JObj [(''count'', JNum 0)])\<rparr>"]
    by (simp add: scripted_def is_2xx_def s)
  have 3: "\<exists>e. fst (adoGet (scripted [503, 404]) ''u'' ''p'' []) = Inl e \<and>
        sublist ''404'' (error_message e) \<and> sublist ''u'' (error_message e)"
    using tg[THEN conjunct2, THEN conjunct2, THEN conjunct1, rule_format, of 1
        "\<lparr>statusCode = 404, body_json = Inr (JObj [(''count'', JNum 0)])\<rparr>"]
    by (simp add: scripted_def is_2xx_def retryable_def s)
  have 4: "\<exists>e. fst (adoGet (scripted [503, 429, 500]) ''u'' ''p'' []) = Inl e \<and>
        error_message e = ''Retries exceeded: GET u'' \<and> sublist ''u'' (error_message e)"
    using te[THEN conjunct2, THEN conjunct2, THEN conjunct2]
    by (simp add: scripted_def retryable_def less_Suc_eq numeral_3_eq_3)
  from 1 2 3 4 show ?thesis by blast
qed

subsection \<open>The effects of the client's calls\<close>



lemma adoGet_loop_trace:
  "\<exists>es k. snd (adoGet_loop net url pat i tr) = tr @ es \<and> k \<le> 3 - i \<and> (i < 3 \<longrightarrow> 1 \<le> k) \<and>
          requests_of es = replicate k (get_request url pat)"
proof (induction "3 - i" arbitrary: i tr)
  case 0
  then have "snd (adoGet_loop net url pat i tr) = tr @ []"
    by (subst adoGet_loop.simps) simp
  with 0 show ?case
    by (intro exI[of _ "[]"] exI[of _ 0]) simp
next
  case (Suc n)
  let ?req = "get_request url pat"
  from Suc.hyps(2) have i: "i < 3" by simp
  show ?case
  proof (cases "net (length (requests_of tr)) ?req")
    case (Inl e)
    with i have "snd (adoGet_loop net url pat i tr) = tr @ [Request ?req]"
      by (subst adoGet_loop.simps) (simp add: request_def get_request_def)
    with i show ?thesis
      by (intro exI[of _ "[Request ?req]"] exI[of _ 1]) simp
  next
    case (Inr res)
    show ?thesis
    proof (cases "retryable (statusCode res)")
      case False
      with i Inr have "snd (adoGet_loop net url pat i tr) = tr @ [Request ?req]"
        by (subst adoGet_loop.simps) (auto simp: request_def get_request_def retryable_def)
      with i show ?thesis
        by (intro exI[of _ "[Request ?req]"] exI[of _ 1]) simp
    next
      case True
      let ?tr = "tr @ [Request ?req, Sleep (250 * Suc i)]"
      have step: "adoGet_loop net url pat i tr = adoGet_loop net url pat (Suc i) ?tr"
        using i Inr True by (rule adoGet_loop_retry)
      have "n = 3 - Suc i" using Suc.hyps(2) by simp
      from Suc.hyps(1)[OF this, of ?tr] obtain es k where
        es: "snd (adoGet_loop net url pat (Suc i) ?tr) = ?tr @ es" "k \<le> 3 - Suc i"
            "requests_of es = replicate k ?req"
        by blast
      from es i show ?thesis
        unfolding step
        by (intro exI[of _ "[Request ?req, Sleep (250 * Suc i)] @ es"] exI[of _ "Suc k"]) simp
    qed
  qed
qed

lemma adoGet_one_call: "one_call (get_request url pat) tr (snd (adoGet net url pat tr))"
  using adoGet_loop_trace[of net url pat 0 tr]
  by (auto simp: one_call_def adoGet_def get_request_def)


lemma adoGet_call: "authorized_call pat tr (snd (adoGet net url pat tr))"
  unfolding authorized_call_def
  by (intro exI[of _ "get_request url pat"] conjI adoGet_one_call)
     (simp add: basic_auth_def get_request_def authHeader_def)

lemma one_call_single: "one_call req tr (tr @ [Request req])"
  unfolding one_call_def
  by (intro exI[of _ "[Request req]"] exI[of _ 1]) simp

lemma adoPost_call: "authorized_call pat tr (snd (adoPost net url pat body contentType tr))"
  unfolding authorized_call_def adoPost_outcome snd_conv
  by (intro exI[of _ "send_request ''POST'' url pat body contentType"] conjI one_call_single)
     (simp add: basic_auth_def send_request_def authHeader_def)

lemma adoPatch_call: "authorized_call pat tr (snd (adoPatch net url pat body contentType tr))"
  unfolding authorized_call_def adoPatch_outcome snd_conv
  by (intro exI[of _ "send_request ''PATCH'' url pat body contentType"] conjI one_call_single)
     (simp add: basic_auth_def send_request_def authHeader_def)

lemma client_calls:
  "authorized_call (ado_pat ado) tr (snd (listProjects net ado tr))"
  "authorized_call (ado_pat ado) tr (snd (listPipelines net ado tr))"
  "authorized_call (ado_pat ado) tr (snd (listBuilds net ado opts tr))"
  "authorized_call (ado_pat ado) tr (snd (wiqlTeam net ado team wiql tr))"
  "authorized_call (ado_pat ado) tr (snd (getWorkItem net ado wid tr))"
  "authorized_call (ado_pat ado) tr (snd (getWorkItems net ado ids flds tr))"
  "authorized_call (ado_pat ado) tr (snd (createWorkItem net ado type ops tr))"
  "authorized_call (ado_pat ado) tr (snd (updateWorkItem net ado wid ops tr))"
  "authorized_call (ado_pat ado) tr (snd (addComment net ado wid text tr))"
  "authorized_call (ado_pat ado) tr (snd (listBoardColumns net ado team_opt tr))"
  "authorized_call (ado_pat ado) tr (snd (listTeamIterations net ado team timeframe tr))"
  "authorized_call (ado_pat ado) tr (snd (getIterationWorkItems net ado team iterationId tr))"
  by (simp_all add: listProjects_def listPipelines_def listBuilds_def wiqlTeam_def getWorkItem_def
      getWorkItems_def createWorkItem_def updateWorkItem_def addComment_def listBoardColumns_def
      listTeamIterations_def getIterationWorkItems_def adoGet_call adoPost_call adoPatch_call Let_def)

lemma snd_text_result: "snd (text_result r) = snd r"
  by (cases r) (simp add: text_result_def split: sum.splits)

lemma snd_text_result_v0: "snd (text_result_v0 r) = snd r"
  by (cases r) (simp add: text_result_v0_def split: sum.splits)

lemma switch_name_known:
  "switch_name net ado ''list_projects'' args tr = text_result (listProjects net ado tr)"
  "switch_name net ado ''list_pipelines'' args tr = text_result (listPipelines net ado tr)"
  "switch_name net ado ''list_builds'' args tr =
     (case ListBuildsSchema args of
        Inl is \<Rightarrow> (Inl (ZodError is), tr)
      | Inr parsed \<Rightarrow> text_result (listBuilds net ado parsed tr))"
  "switch_name net ado ''wiql_query_team'' args tr =
     (case WiqlQueryTeamSchema args of
        Inl is \<Rightarrow> (Inl (ZodError is), tr)
      | Inr parsed \<Rightarrow> text_result (wiqlTeam net ado (wq_team parsed) (wq_wiql parsed) tr))"
  "switch_name net ado ''work_item_get'' args tr =
     (case WorkItemGetSchema args of
        Inl is \<Rightarrow> (Inl (ZodError is), tr)
      | Inr parsed_id \<Rightarrow> text_result (getWorkItem net ado parsed_id tr))"
  "switch_name net ado ''work_items_get'' args tr =
     (case WorkItemsGetSchema args of
        Inl is \<Rightarrow> (Inl (ZodError is), tr)
      | Inr parsed \<Rightarrow> text_result (getWorkItems net ado (wg_ids parsed) (wg_fields parsed) tr))"
  "switch_name net ado ''work_item_create'' args tr =
     (case WorkItemCreateSchema args of
        Inl is \<Rightarrow> (Inl (ZodError is), tr)
      | Inr parsed \<Rightarrow>
          text_result (createWorkItem net ado (wc_type parsed) (work_item_create_ops parsed) tr))"
  "switch_name net ado ''work_item_update'' args tr =
     (case WorkItemUpdateSchema args of
        Inl is \<Rightarrow> (Inl (ZodError is), tr)
      | Inr parsed \<Rightarrow>
          text_result (updateWorkItem net ado (wu_id parsed) (work_item_update_ops parsed) tr))"
  "switch_name net ado ''work_item_comment_add'' args tr =
     (case WorkItemCommentAddSchema args of
        Inl is \<Rightarrow> (Inl (ZodError is), tr)
      | Inr parsed \<Rightarrow> text_result (addComment net ado (ca_id parsed) (ca_text parsed) tr))"
  "switch_name net ado ''boards_list_columns'' args tr =
     (case BoardsListColumnsSchema args of
        Inl is \<Rightarrow> (Inl (ZodError is), tr)
      | Inr parsed_team \<Rightarrow> text_result (listBoardColumns net ado parsed_team tr))"
  "switch_name net ado ''iterations_list'' args tr =
     (case IterationsListSchema args of
        Inl is \<Rightarrow> (Inl (ZodError is), tr)
      | Inr parsed \<Rightarrow>
          text_result (listTeamIterations net ado (il_team parsed) (il_timeframe parsed) tr))"
  "switch_name net ado ''iteration_work_items'' args tr =
     (case IterationWorkItemsSchema args of
        Inl is \<Rightarrow> (Inl (ZodError is), tr)
      | Inr parsed \<Rightarrow>
          text_result (getIterationWorkItems net ado (iw_team parsed) (iw_iterationId parsed) tr))"
  "switch_name net ado ''board_move'' args tr =
     (case BoardMoveSchema args of
        Inl is \<Rightarrow> (Inl (ZodError is), tr)
      | Inr parsed \<Rightarrow>
          text_result (updateWorkItem net ado (bm_id parsed) (board_move_ops parsed) tr))"
  by (simp_all add: switch_name_def)

lemma switch_name_unknown:
  "name \<notin> set tool_names \<Longrightarrow>
   switch_name net ado name args tr = (Inl (Thrown (McpError MethodNotFound (''Unknown tool: '' @ name))), tr)"
  by (simp add: switch_name_def tool_names_def)

section \<open>Properties of the tool server\<close>

lemma tool_names_cases:
  assumes "name \<in> set tool_names"
  obtains "name = ''list_projects''" | "name = ''list_pipelines''" | "name = ''list_builds''"
    | "name = ''wiql_query_team''" | "name = ''work_item_get''" | "name = ''work_items_get''"
    | "name = ''work_item_create''" | "name = ''work_item_update''" | "name = ''work_item_comment_add''"
    | "name = ''boards_list_columns''" | "name = ''iterations_list''" | "name = ''iteration_work_items''"
    | "name = ''board_move''"
proof -
  from assms have "name = ''list_projects'' \<or> name = ''list_pipelines'' \<or> name = ''list_builds''
    \<or> name = ''wiql_query_team'' \<or> name = ''work_item_get'' \<or> name = ''work_items_get''
    \<or> name = ''work_item_create'' \<or> name = ''work_item_update'' \<or> name = ''work_item_comment_add''
    \<or> name = ''boards_list_columns'' \<or> name = ''iterations_list'' \<or> name = ''iteration_work_items''
    \<or> name = ''board_move''"
    by (simp add: tool_names_def)
  then show thesis
    by (elim disjE) (rule that; assumption)+
qed

lemma tool_rejects_known:
  "tool_rejects ''list_projects'' args = None"
  "tool_rejects ''list_pipelines'' args = None"
  "tool_rejects ''list_builds'' args = (case ListBuildsSchema args of Inl is \<Rightarrow> Some is | Inr x \<Rightarrow> None)"
  "tool_rejects ''wiql_query_team'' args = (case WiqlQueryTeamSchema args of Inl is \<Rightarrow> Some is | Inr x \<Rightarrow> None)"
  "tool_rejects ''work_item_get'' args = (case WorkItemGetSchema args of Inl is \<Rightarrow> Some is | Inr x \<Rightarrow> None)"
  "tool_rejects ''work_items_get'' args = (case WorkItemsGetSchema args of Inl is \<Rightarrow> Some is | Inr x \<Rightarrow> None)"
  "tool_rejects ''work_item_create'' args = (case WorkItemCreateSchema args of Inl is \<Rightarrow> Some is | Inr x \<Rightarrow> None)"
  "tool_rejects ''work_item_update'' args = (case WorkItemUpdateSchema args of Inl is \<Rightarrow> Some is | Inr x \<Rightarrow> None)"
  "tool_rejects ''work_item_comment_add'' args = (case WorkItemCommentAddSchema args of Inl is \<Rightarrow> Some is | Inr x \<Rightarrow> None)"
  "tool_rejects ''boards_list_columns'' args = (case BoardsListColumnsSchema args of Inl is \<Rightarrow> Some is | Inr x \<Rightarrow> None)"
  "tool_rejects ''iterations_list'' args = (case IterationsListSchema args of Inl is \<Rightarrow> Some is | Inr x \<Rightarrow> None)"
  "tool_rejects ''iteration_work_items'' args = (case IterationWorkItemsSchema args of Inl is \<Rightarrow> Some is | Inr x \<Rightarrow> None)"
  "tool_rejects ''board_move'' args = (case BoardMoveSchema args of Inl is \<Rightarrow> Some is | Inr x \<Rightarrow> None)"
  by (simp_all add: tool_rejects_def schema_issues_def)

lemma tool_rejects_unknown: "name \<notin> set tool_names \<Longrightarrow> tool_rejects name args = None"
  by (simp add: tool_rejects_def tool_names_def)

text \<open>What the \<^verbatim>\<open>switch\<close> does: it throws the validation error exactly when the schema
  of the tool rejects the arguments, and then sends nothing; a valid call makes one
  authorised REST call; an unknown name sends nothing.\<close>

lemma switch_name_effects:
  "(case tool_rejects name args of
      Some is \<Rightarrow> switch_name net ado name args tr = (Inl (ZodError is), tr)
    | None \<Rightarrow>
        (\<forall>is. fst (switch_name net ado name args tr) \<noteq> Inl (ZodError is)) \<and>
        (if name \<in> set tool_names
         then authorized_call (ado_pat ado) tr (snd (switch_name net ado name args tr))
         else switch_name net ado name args tr =
                (Inl (Thrown (McpError MethodNotFound (''Unknown tool: '' @ name))), tr)))"
proof (cases "name \<in> set tool_names")
  case False
  then show ?thesis
    by (simp add: tool_rejects_unknown switch_name_unknown)
next
  case True
  have z: "fst (text_result r) \<noteq> Inl (ZodError zs)" for r zs
    by (cases r) (simp add: text_result_def split: sum.splits)
  from True show ?thesis
    by (cases name rule: tool_names_cases)
       (simp_all add: tool_names_def tool_rejects_known switch_name_known snd_text_result client_calls z
          split: sum.splits)
qed



lemma authorized_call_requests:
  assumes "authorized_call pat tr tr'"
  shows "\<exists>es. tr' = tr @ es \<and> (\<forall>r\<in>set (requests_of es). basic_auth pat r)"
  using assms unfolding authorized_call_def one_call_def by auto

lemma no_call_requests: "\<exists>es. tr = tr @ es \<and> (\<forall>r\<in>set (requests_of es). basic_auth pat r)"
  by (intro exI[of _ "[]"]) simp

lemma switch_name_requests:
  "\<exists>es. snd (switch_name net ado name args tr) = tr @ es \<and>
        (\<forall>r\<in>set (requests_of es). basic_auth (ado_pat ado) r)"
proof (cases "tool_rejects name args")
  case (Some zs)
  with switch_name_effects[where name = name and args = args and net = net and ado = ado and tr = tr] show ?thesis
    by (simp add: no_call_requests)
next
  case None
  with switch_name_effects[where name = name and args = args and net = net and ado = ado and tr = tr] show ?thesis
    by (cases "name \<in> set tool_names") (simp_all add: no_call_requests authorized_call_requests)
qed

lemma snd_callTool: "snd (callTool net ado name args tr) = snd (switch_name net ado name args tr)"
  by (simp add: callTool_def split: prod.splits sum.splits thrown.splits)

lemma case_v0_cases:
  "case_v0 k read run args tr = Some out \<longleftrightarrow>
     (args = None \<and> out = (Inl (cannot_destructure k), tr)) \<or>
     (\<exists>a. args \<noteq> None \<and> read args = Some a \<and> out = text_result_v0 (run a))"
  by (auto simp: case_v0_def split: option.splits)

lemma switch_name_v0_effects:
  assumes "switch_name_v0 net ado name args tr = Some out"
  shows "if name \<in> set tool_names
         then (if args = None \<and> name \<noteq> ''list_projects'' \<and> name \<noteq> ''list_pipelines''
               then snd out = tr \<and> (\<exists>m. fst out = Inl (JsError ''TypeError'' m))
               else authorized_call (ado_pat ado) tr (snd out))
         else out = (Inl (McpError MethodNotFound (''Unknown tool: '' @ name)), tr)"
proof (cases "name \<in> set tool_names")
  case False
  with assms show ?thesis
    by (simp add: switch_name_v0_def tool_names_def)
next
  case True
  then show ?thesis
    using assms
    by (cases name rule: tool_names_cases)
       (auto simp: switch_name_v0_def tool_names_def case_v0_cases snd_text_result_v0 client_calls
          cannot_destructure_def cannot_read_def split: if_splits option.splits)
qed


lemma callTool_v0_snd:
  assumes "callTool_v0 net ado name args tr = Some out"
  obtains out0 where "switch_name_v0 net ado name args tr = Some out0" "snd out = snd out0"
    "fst out = (case fst out0 of Inr result \<Rightarrow> Inr result
       | Inl error \<Rightarrow> Inl (McpError InternalError (''Error executing tool '' @ name @ '': '' @ error_message error)))"
  using assms by (auto simp: callTool_v0_def split: option.splits prod.splits sum.splits)

lemma callTool_v0_requests:
  assumes "callTool_v0 net ado name args tr = Some out"
  shows "\<exists>es. snd out = tr @ es \<and> (\<forall>r\<in>set (requests_of es). basic_auth (ado_pat ado) r)"
proof -
  from assms obtain out0 where o: "switch_name_v0 net ado name args tr = Some out0" "snd out = snd out0"
    by (rule callTool_v0_snd)
  from switch_name_v0_effects[OF o(1)] show ?thesis
    unfolding o(2)
    by (auto simp: no_call_requests authorized_call_requests split: if_splits)
qed

text \<open>
  C5. The \<^verbatim>\<open>Authorization\<close> header is \<^verbatim>\<open>Basic\<close>, a space, and the base64 encoding of a
  colon followed by the token (an empty user name, the token as password).  Every request
  the client sends carries it: each request of a GET, a POST or a PATCH, and so each
  request of every tool invocation, in both builds of the server.
\<close>

theorem requests_carry_basic_auth:
  "authHeader pat = ''Basic '' @ base64 ('':'' @ pat) \<and>
   (\<exists>es. snd (adoGet net url pat tr) = tr @ es \<and> (\<forall>r\<in>set (requests_of es). basic_auth pat r)) \<and>
   (\<exists>es. snd (adoPost net url pat body contentType tr) = tr @ es \<and> (\<forall>r\<in>set (requests_of es). basic_auth pat r)) \<and>
   (\<exists>es. snd (adoPatch net url pat body contentType tr) = tr @ es \<and> (\<forall>r\<in>set (requests_of es). basic_auth pat r)) \<and>
   (\<exists>es. snd (callTool net ado name args tr) = tr @ es \<and>
         (\<forall>r\<in>set (requests_of es). basic_auth (ado_pat ado) r)) \<and>
   (\<forall>out. callTool_v0 net ado name args tr = Some out \<longrightarrow>
      (\<exists>es. snd out = tr @ es \<and> (\<forall>r\<in>set (requests_of es). basic_auth (ado_pat ado) r)))"
  using adoGet_call[THEN authorized_call_requests] adoPost_call[THEN authorized_call_requests]
    adoPatch_call[THEN authorized_call_requests] switch_name_requests callTool_v0_requests
  by (simp add: authHeader_def snd_callTool)

lemma contoso_get_7:
  "callTool (scripted [503]) contoso ''work_item_get'' (Some (JObj [(''id'', JNum 7)])) [] =
     (Inr (TextContent (JSON_stringify_indent 0 (JObj [(''count'', JNum 0)]))),
      [Request \<lparr>req_method = ''GET'',
                req_url = ''https://contoso.visualstudio.com/Web%20Shop/_apis/wit/workitems/7?api-version=6.0'',
                req_headers = [(''Authorization'', ''Basic OnNlY3JldA=='')], req_body = None\<rparr>,
       Sleep 250,
       Request \<lparr>req_method = ''GET'',
                req_url = ''https://contoso.visualstudio.com/Web%20Shop/_apis/wit/workitems/7?api-version=6.0'',
                req_headers = [(''Authorization'', ''Basic OnNlY3JldA=='')], req_body = None\<rparr>])"
  by (simp add: callTool_def switch_name_def WorkItemGetSchema_def z_object_def z_member_def z_number_def
      text_result_def getWorkItem_def adoGet_def adoGet_loop.simps request_def sleep_def scripted_def
      contoso_def orgBase_def baseUrl_def encodeURIComponent_def uri_unescaped_def alphanumeric_def
      percent_byte_def hex_digit_def strip_trailing_slash_def String_int_def String_nat.simps
      digit_char_def authHeader_def base64_char_def)


lemma contoso_get_7_v0:
  "callTool_v0 (scripted [503]) contoso ''work_item_get'' (Some (JObj [(''id'', JNum 7)])) [] =
     Some (Inr (TextContent (JSON_stringify_indent 0 (JObj [(''count'', JNum 0)]))),
      [Request \<lparr>req_method = ''GET'',
                req_url = ''https://contoso.visualstudio.com/Web%20Shop/_apis/wit/workitems/7?api-version=6.0'',
                req_headers = [(''Authorization'', ''Basic OnNlY3JldA=='')], req_body = None\<rparr>,
       Sleep 250,
       Request \<lparr>req_method = ''GET'',
                req_url = ''https://contoso.visualstudio.com/Web%20Shop/_apis/wit/workitems/7?api-version=6.0'',
                req_headers = [(''Authorization'', ''Basic OnNlY3JldA=='')], req_body = None\<rparr>])"
  by (simp add: callTool_v0_def switch_name_v0_def case_v0_def WorkItemGetArgs_def typed_def
      WorkItemGetSchema_def z_object_def z_member_def z_number_def
      text_result_v0_def getWorkItem_def adoGet_def adoGet_loop.simps request_def sleep_def scripted_def
      contoso_def orgBase_def baseUrl_def encodeURIComponent_def uri_unescaped_def alphanumeric_def
      percent_byte_def hex_digit_def strip_trailing_slash_def String_int_def String_nat.simps
      digit_char_def authHeader_def base64_char_def)

theorem requests_carry_basic_auth_witness:
  "authHeader ''secret'' = ''Basic OnNlY3JldA=='' \<and>
   list_all (basic_auth ''secret'')
     (requests_of (snd (callTool (scripted [503]) contoso ''work_item_get'' (Some (JObj [(''id'', JNum 7)])) []))) \<and>
   length (requests_of (snd (callTool (scripted [503]) contoso ''work_item_get'' (Some (JObj [(''id'', JNum 7)])) []))) = 2 \<and>
   (\<exists>out. callTool_v0 (scripted [503]) contoso ''work_item_get'' (Some (JObj [(''id'', JNum 7)])) [] = Some out \<and>
      list_all (basic_auth ''secret'') (requests_of (snd out)) \<and> length (requests_of (snd out)) = 2)"
proof -
  note th = requests_carry_basic_auth[of "''secret''" "scripted [503]" "''u''" "[]" "''{}''" "''application/json''"
      contoso "''work_item_get''" "Some (JObj [(''id'', JNum 7)])"]
  have pat: "ado_pat contoso = ''secret''"
    by (simp add: contoso_def)
  from th have "authHeader ''secret'' = ''Basic OnNlY3JldA==''"
    by (simp add: base64_char_def)
  moreover from th have "list_all (basic_auth ''secret'')
     (requests_of (snd (callTool (scripted [503]) contoso ''work_item_get'' (Some (JObj [(''id'', JNum 7)])) [])))"
    unfolding pat by (auto simp: list_all_iff)
  moreover have "length (requests_of (snd (callTool (scripted [503]) contoso ''work_item_get'' (Some (JObj [(''id'', JNum 7)])) []))) = 2"
    by (simp add: contoso_get_7)
  moreover from th contoso_get_7_v0
  have "\<exists>out. callTool_v0 (scripted [503]) contoso ''work_item_get'' (Some (JObj [(''id'', JNum 7)])) [] = Some out \<and>
      list_all (basic_auth ''secret'') (requests_of (snd out)) \<and> length (requests_of (snd out)) = 2"
    unfolding pat by (auto simp: list_all_iff)
  ultimately show ?thesis by blast
qed


lemma MethodNotFound_code: "String_int (- 32601) = ''-32601''"
  by (simp add: String_int_def String_nat.simps digit_char_def)

lemma sublist_last_part: "sublist u (m @ u)"
  by simp

text \<open>
  C10. A call whose name is none of the thirteen tool names ends in an internal error and
  never in a method-not-found error: the \<^verbatim>\<open>McpError(MethodNotFound)\<close> of the default
  branch is thrown inside \<^verbatim>\<open>try\<close>, and the \<^verbatim>\<open>catch\<close> clause rethrows it as an
  \<^verbatim>\<open>McpError(InternalError)\<close> whose message contains the unknown name.  Nothing is sent.
\<close>

theorem unknown_tool_is_internal_error:
  assumes "name \<notin> set tool_names"
  shows "callTool net ado name args tr =
           (Inl (McpError InternalError
                  (''Tool execution failed: McpError: MCP error -32601: Unknown tool: '' @ name)), tr) \<and>
         callTool_v0 net ado name args tr =
           Some (Inl (McpError InternalError
                  (''Error executing tool '' @ name @ '': MCP error -32601: Unknown tool: '' @ name)), tr) \<and>
         sublist name (''Tool execution failed: McpError: MCP error -32601: Unknown tool: '' @ name) \<and>
         sublist name (''Error executing tool '' @ name @ '': MCP error -32601: Unknown tool: '' @ name) \<and>
         (\<forall>msg. fst (callTool net ado name args tr) \<noteq> Inl (McpError MethodNotFound msg)) \<and>
         (\<forall>out msg. callTool_v0 net ado name args tr = Some out \<longrightarrow> fst out \<noteq> Inl (McpError MethodNotFound msg))"
proof -
  have v1: "callTool net ado name args tr =
           (Inl (McpError InternalError
                  (''Tool execution failed: McpError: MCP error -32601: Unknown tool: '' @ name)), tr)"
    using assms
    by (simp add: callTool_def switch_name_unknown error_toString_def MethodNotFound_code)
  have "switch_name_v0 net ado name args tr =
          Some (Inl (McpError MethodNotFound (''Unknown tool: '' @ name)), tr)"
    using assms by (simp add: switch_name_v0_def tool_names_def)
  then have v0: "callTool_v0 net ado name args tr =
           Some (Inl (McpError InternalError
                  (''Error executing tool '' @ name @ '': MCP error -32601: Unknown tool: '' @ name)), tr)"
    by (simp add: callTool_v0_def MethodNotFound_code)
  have s1: "sublist name (''Tool execution failed: McpError: MCP error -32601: Unknown tool: '' @ name)"
    by (rule sublist_last_part)
  have s0: "sublist name (''Error executing tool '' @ name @ '': MCP error -32601: Unknown tool: '' @ name)"
    by (rule sublist_append_rightI[THEN sublist_order.order_trans, OF sublist_last_part])
  show ?thesis
    unfolding v1 v0 using s1 s0 by simp
qed

theorem unknown_tool_is_internal_error_witness:
  "callTool (scripted []) contoso ''delete_project'' None [] =
     (Inl (McpError InternalError ''Tool execution failed: McpError: MCP error -32601: Unknown tool: delete_project''), []) \<and>
   callTool_v0 (scripted []) contoso ''delete_project'' None [] =
     Some (Inl (McpError InternalError ''Error executing tool delete_project: MCP error -32601: Unknown tool: delete_project''), [])"
  using unknown_tool_is_internal_error[of "''delete_project''" "scripted []" contoso None "[]"]
  by (simp add: tool_names_def)


lemma sublist_join: "x \<in> set xs \<Longrightarrow> sublist x (join sep xs)"
proof (induction sep xs rule: join.induct)
  case (3 sep x' y ys)
  show ?case
  proof (cases "x = x'")
    case True
    then show ?thesis by simp
  next
    case False
    with 3 have "sublist x (join sep (y # ys))" by simp
    then have "sublist x ((x' @ sep) @ join sep (y # ys))"
      by (rule sublist_order.order_trans) (rule sublist_append_leftI)
    then show ?thesis by simp
  qed
qed simp_all

lemma issue_path_listed:
  assumes "z \<in> set zs"
  shows "sublist (join ''.'' (map path_elem_String (issue_path z)))
           (''Invalid arguments: '' @ join '', '' (map issue_text zs))"
proof -
  have "sublist (join ''.'' (map path_elem_String (issue_path z))) (issue_text z)"
    unfolding issue_text_def by (rule sublist_append_rightI)
  also have "sublist (issue_text z) (join '', '' (map issue_text zs))"
    using assms by (intro sublist_join) simp
  also have "sublist (join '', '' (map issue_text zs)) (''Invalid arguments: '' @ join '', '' (map issue_text zs))"
    by (rule sublist_append_leftI)
  finally show ?thesis .
qed

text \<open>
  C4. Every error thrown while a tool runs is caught by the handler and rethrown as an
  internal error, except the failure of the validation of the arguments, which is
  rethrown as an invalid-parameters error whose message lists, for each issue, the path of
  the offending member and the issue's text; this holds for every name and all arguments.
  The build 0.1.0 validates nothing, and rethrows every error as an internal error.
\<close>

theorem tool_errors_at_dispatch_boundary:
  "(case tool_rejects name args of
      Some zs \<Rightarrow>
        callTool net ado name args tr =
          (Inl (McpError InvalidParams (''Invalid arguments: '' @ join '', '' (map issue_text zs))), tr) \<and>
        list_all (\<lambda>z. sublist (join ''.'' (map path_elem_String (issue_path z)))
                        (''Invalid arguments: '' @ join '', '' (map issue_text zs))) zs
    | None \<Rightarrow>
        (case fst (callTool net ado name args tr) of
           Inr result \<Rightarrow> True
         | Inl e \<Rightarrow> \<exists>msg. e = McpError InternalError msg)) \<and>
   (\<forall>e tr'. switch_name net ado name args tr = (Inl (Thrown e), tr') \<longrightarrow>
      callTool net ado name args tr =
        (Inl (McpError InternalError (''Tool execution failed: '' @ error_toString e)), tr')) \<and>
   (\<forall>out. callTool_v0 net ado name args tr = Some out \<longrightarrow>
      (case fst out of
         Inr result \<Rightarrow> True
       | Inl e \<Rightarrow> \<exists>msg. e = McpError InternalError msg)) \<and>
   (\<forall>e tr'. switch_name_v0 net ado name args tr = Some (Inl e, tr') \<longrightarrow>
      callTool_v0 net ado name args tr =
        Some (Inl (McpError InternalError (''Error executing tool '' @ name @ '': '' @ error_message e)), tr'))"
proof (intro conjI)
  note eff = switch_name_effects[where name = name and args = args and net = net and ado = ado and tr = tr]
  show "case tool_rejects name args of
      Some zs \<Rightarrow>
        callTool net ado name args tr =
          (Inl (McpError InvalidParams (''Invalid arguments: '' @ join '', '' (map issue_text zs))), tr) \<and>
        list_all (\<lambda>z. sublist (join ''.'' (map path_elem_String (issue_path z)))
                        (''Invalid arguments: '' @ join '', '' (map issue_text zs))) zs
    | None \<Rightarrow>
        (case fst (callTool net ado name args tr) of
           Inr result \<Rightarrow> True
         | Inl e \<Rightarrow> \<exists>msg. e = McpError InternalError msg)"
  proof (cases "tool_rejects name args")
    case (Some zs)
    with eff have "switch_name net ado name args tr = (Inl (ZodError zs), tr)" by simp
    then show ?thesis
      using Some issue_path_listed[where zs = zs] by (simp add: callTool_def list_all_iff)
  next
    case None
    with eff have "\<forall>zs. fst (switch_name net ado name args tr) \<noteq> Inl (ZodError zs)" by simp
    then show ?thesis
      using None
      by (auto simp: callTool_def split: prod.splits sum.splits thrown.splits)
  qed
qed (auto simp: callTool_def callTool_v0_def split: prod.splits sum.splits option.splits)


theorem tool_errors_at_dispatch_boundary_witness:
  "callTool (scripted []) contoso ''list_builds''
      (Some (JObj [(''top'', JNum 0), (''definitions'', JArr [JNum 1, JStr ''x''])])) [] =
     (Inl (McpError InvalidParams
        ''Invalid arguments: definitions.1: Expected number, received string, top: Number must be greater than or equal to 1''), []) \<and>
   callTool (scripted [404]) contoso ''work_item_get'' (Some (JObj [(''id'', JNum 7)])) [] =
     (Inl (McpError InternalError
        ''Tool execution failed: Error: 404 GET https://contoso.visualstudio.com/Web%20Shop/_apis/wit/workitems/7?api-version=6.0''),
      [Request (get_request ''https://contoso.visualstudio.com/Web%20Shop/_apis/wit/workitems/7?api-version=6.0'' ''secret'')]) \<and>
   callTool_v0 (scripted [404]) contoso ''work_item_get'' (Some (JObj [(''id'', JNum 7)])) [] =
     Some (Inl (McpError InternalError
        ''Error executing tool work_item_get: 404 GET https://contoso.visualstudio.com/Web%20Shop/_apis/wit/workitems/7?api-version=6.0''),
      [Request (get_request ''https://contoso.visualstudio.com/Web%20Shop/_apis/wit/workitems/7?api-version=6.0'' ''secret'')])"
proof -
  let ?bad = "Some (JObj [(''top'', JNum 0), (''definitions'', JArr [JNum 1, JStr ''x''])])"
  let ?seven = "Some (JObj [(''id'', JNum 7)])"
  let ?url = "''https://contoso.visualstudio.com/Web%20Shop/_apis/wit/workitems/7?api-version=6.0''"
  have rej: "tool_rejects ''list_builds'' ?bad =
      Some [\<lparr>issue_path = [Key ''definitions'', Index 1], issue_message = ''Expected number, received string''\<rparr>,
            \<lparr>issue_path = [Key ''top''], issue_message = ''Number must be greater than or equal to 1''\<rparr>]"
    by (simp add: tool_rejects_known ListBuildsSchema_def z_object_def z_member_def z_optional_def
        z_array_def z_number_def z_both_def z_string_def invalid_type_def String_int_def
        String_nat.simps digit_char_def)
  have sw: "switch_name (scripted [404]) contoso ''work_item_get'' ?seven [] =
      (Inl (Thrown (Error (''404 GET '' @ ?url))), [Request (get_request ?url ''secret'')])"
    by (simp add: switch_name_known WorkItemGetSchema_def z_object_def z_member_def z_number_def
      text_result_def getWorkItem_def adoGet_def adoGet_loop.simps request_def sleep_def scripted_def
      contoso_def orgBase_def baseUrl_def encodeURIComponent_def uri_unescaped_def alphanumeric_def
      percent_byte_def hex_digit_def strip_trailing_slash_def String_int_def String_nat.simps
      digit_char_def get_request_def)
  have sw0: "switch_name_v0 (scripted [404]) contoso ''work_item_get'' ?seven [] =
      Some (Inl (Error (''404 GET '' @ ?url)), [Request (get_request ?url ''secret'')])"
    by (simp add: switch_name_v0_def case_v0_def WorkItemGetArgs_def typed_def
      WorkItemGetSchema_def z_object_def z_member_def z_number_def
      text_result_v0_def getWorkItem_def adoGet_def adoGet_loop.simps request_def sleep_def scripted_def
      contoso_def orgBase_def baseUrl_def encodeURIComponent_def uri_unescaped_def alphanumeric_def
      percent_byte_def hex_digit_def strip_trailing_slash_def String_int_def String_nat.simps
      digit_char_def get_request_def)
  from tool_errors_at_dispatch_boundary[where name = "''list_builds''" and args = ?bad
      and net = "scripted []" and ado = contoso and tr = "[]"] rej
  have 1: "callTool (scripted []) contoso ''list_builds'' ?bad [] =
     (Inl (McpError InvalidParams
        ''Invalid arguments: definitions.1: Expected number, received string, top: Number must be greater than or equal to 1''), [])"
    by (simp add: issue_text_def String_nat.simps digit_char_def)
  from tool_errors_at_dispatch_boundary[where name = "''work_item_get''" and args = ?seven
      and net = "scripted [404]" and ado = contoso and tr = "[]"] sw sw0
  have 2: "callTool (scripted [404]) contoso ''work_item_get'' ?seven [] =
     (Inl (McpError InternalError (''Tool execution failed: Error: 404 GET '' @ ?url)),
      [Request (get_request ?url ''secret'')])"
    and 3: "callTool_v0 (scripted [404]) contoso ''work_item_get'' ?seven [] =
     Some (Inl (McpError InternalError (''Error executing tool work_item_get: 404 GET '' @ ?url)),
      [Request (get_request ?url ''secret'')])"
    by (simp_all add: error_toString_def)
  from 1 2 3 show ?thesis by simp
qed





lemma patch_documents:
  "WorkItemCreateSchema args = Inr a \<Longrightarrow>
     snd (callTool net ado ''work_item_create'' args tr) =
       tr @ [Request (send_request ''PATCH'' (createWorkItem_url ado (wc_type a)) (ado_pat ado)
               (JSON_stringify (JArr (map patch_op_json (work_item_create_ops a))))
               ''application/json-patch+json'')]"
  "WorkItemUpdateSchema args = Inr u \<Longrightarrow>
     snd (callTool net ado ''work_item_update'' args tr) =
       tr @ [Request (send_request ''PATCH'' (updateWorkItem_url ado (wu_id u)) (ado_pat ado)
               (JSON_stringify (JArr (map patch_op_json (work_item_update_ops u))))
               ''application/json-patch+json'')]"
  "BoardMoveSchema args = Inr m \<Longrightarrow>
     snd (callTool net ado ''board_move'' args tr) =
       tr @ [Request (send_request ''PATCH'' (updateWorkItem_url ado (bm_id m)) (ado_pat ado)
               (JSON_stringify (JArr (map patch_op_json (board_move_ops m))))
               ''application/json-patch+json'')]"
  by (simp_all add: snd_callTool switch_name_known snd_text_result createWorkItem_def updateWorkItem_def
      adoPatch_outcome)

lemma typed_Some: "typed r = Some x \<longleftrightarrow> r = Inr x"
  by (cases r) (simp_all add: typed_def)

lemma z_object_None: "z_object members None = Inl [invalid_type [] ''object'' None]"
  by (simp add: z_object_def)

lemma patch_documents_v0:
  "WorkItemCreateArgs args = Some a \<Longrightarrow>
     map_option snd (callTool_v0 net ado ''work_item_create'' args tr) =
       Some (tr @ [Request (send_request ''PATCH'' (createWorkItem_url ado (wc_type a)) (ado_pat ado)
               (JSON_stringify (JArr (map patch_op_json (work_item_create_ops_v0 a))))
               ''application/json-patch+json'')])"
  "WorkItemUpdateArgs args = Some u \<Longrightarrow>
     map_option snd (callTool_v0 net ado ''work_item_update'' args tr) =
       Some (tr @ [Request (send_request ''PATCH'' (updateWorkItem_url ado (wu_id u)) (ado_pat ado)
               (JSON_stringify (JArr (map patch_op_json (work_item_update_ops u))))
               ''application/json-patch+json'')])"
  "BoardMoveArgs args = Some m \<Longrightarrow>
     map_option snd (callTool_v0 net ado ''board_move'' args tr) =
       Some (tr @ [Request (send_request ''PATCH'' (updateWorkItem_url ado (bm_id m)) (ado_pat ado)
               (JSON_stringify (JArr (map patch_op_json (board_move_ops_v0 m))))
               ''application/json-patch+json'')])"
proof -
  have none: "WorkItemCreateArgs None = None" "WorkItemUpdateArgs None = None" "BoardMoveArgs None = None"
    by (simp_all add: WorkItemCreateArgs_def WorkItemCreateSchema_def WorkItemUpdateArgs_def
        WorkItemUpdateSchema_def BoardMoveArgs_def BoardMoveSchema_def z_object_None typed_def)
  show "WorkItemCreateArgs args = Some a \<Longrightarrow>
     map_option snd (callTool_v0 net ado ''work_item_create'' args tr) =
       Some (tr @ [Request (send_request ''PATCH'' (createWorkItem_url ado (wc_type a)) (ado_pat ado)
               (JSON_stringify (JArr (map patch_op_json (work_item_create_ops_v0 a))))
               ''application/json-patch+json'')])"
    using none(1)
    by (cases args)
       (auto simp: callTool_v0_def switch_name_v0_def case_v0_def text_result_v0_def createWorkItem_def
          adoPatch_outcome split: sum.splits)
  show "WorkItemUpdateArgs args = Some u \<Longrightarrow>
     map_option snd (callTool_v0 net ado ''work_item_update'' args tr) =
       Some (tr @ [Request (send_request ''PATCH'' (updateWorkItem_url ado (wu_id u)) (ado_pat ado)
               (JSON_stringify (JArr (map patch_op_json (work_item_update_ops u))))
               ''application/json-patch+json'')])"
    using none(2)
    by (cases args)
       (auto simp: callTool_v0_def switch_name_v0_def case_v0_def text_result_v0_def updateWorkItem_def
          adoPatch_outcome split: sum.splits)
  show "BoardMoveArgs args = Some m \<Longrightarrow>
     map_option snd (callTool_v0 net ado ''board_move'' args tr) =
       Some (tr @ [Request (send_request ''PATCH'' (updateWorkItem_url ado (bm_id m)) (ado_pat ado)
               (JSON_stringify (JArr (map patch_op_json (board_move_ops_v0 m))))
               ''application/json-patch+json'')])"
    using none(3)
    by (cases args)
       (auto simp: callTool_v0_def switch_name_v0_def case_v0_def text_result_v0_def updateWorkItem_def
          adoPatch_outcome split: sum.splits)
qed




subsection \<open>URLs\<close>

lemma listBuilds_q_explicit:
  "listBuilds_q opts =
     [(''api-version'', ''6.0'')]
     @ (case lb_top opts of Some n \<Rightarrow> if n \<noteq> 0 then [(''$top'', String_int n)] else [] | None \<Rightarrow> [])
     @ (case lb_branchName opts of Some b \<Rightarrow> if b \<noteq> [] then [(''branchName'', b)] else [] | None \<Rightarrow> [])
     @ (case lb_definitions opts of
          Some ds \<Rightarrow> if ds \<noteq> [] then [(''definitions'', join '','' (map String_int ds))] else []
        | None \<Rightarrow> [])
     @ (case lb_continuationToken opts of
          Some c \<Rightarrow> if c \<noteq> [] then [(''continuationToken'', c)] else [] | None \<Rightarrow> [])"
  by (simp add: listBuilds_q_def Let_def split: option.splits)

lemma join_Cons: "join sep (x # xs) = x @ concat (map ((@) sep) xs)"
  by (induction xs arbitrary: x) simp_all

lemma form_urlencode_append: "form_urlencode (a @ b) = form_urlencode a @ form_urlencode b"
  by (simp add: form_urlencode_def)

lemma form_urlencode_concat: "form_urlencode (concat xss) = concat (map form_urlencode xss)"
  by (induction xss) (simp_all add: form_urlencode_append, simp add: form_urlencode_def)

lemma form_urlencode_join_comma:
  "form_urlencode (join '','' xs) = join ''%2C'' (map form_urlencode xs)"
proof (cases xs)
  case Nil
  then show ?thesis by (simp add: form_urlencode_def)
next
  case (Cons x xs')
  have comma: "form_urlencode (CHR '','' # s) = ''%2C'' @ form_urlencode s" for s
    by (simp add: form_urlencode_def alphanumeric_def percent_byte_def hex_digit_def)
  have "form_urlencode (concat (map ((@) '','') xs')) =
        concat (map ((@) ''%2C'') (map form_urlencode xs'))"
    unfolding form_urlencode_concat
    by (induction xs') (simp_all add: comma)
  then show ?thesis
    unfolding Cons list.map join_Cons form_urlencode_append by simp
qed

lemma toString_Cons:
  "URLSearchParams_toString (kv # q) =
     form_urlencode (fst kv) @ ''='' @ form_urlencode (snd kv)
     @ concat (map (\<lambda>kv. ''&'' @ form_urlencode (fst kv) @ ''='' @ form_urlencode (snd kv)) q)"
  by (simp add: URLSearchParams_toString_def join_Cons comp_def)

lemma listBuilds_wire:
  "URLSearchParams_toString (listBuilds_q opts) =
     ''api-version=6.0''
     @ (case lb_top opts of Some n \<Rightarrow> if n \<noteq> 0 then ''&%24top='' @ form_urlencode (String_int n) else [] | None \<Rightarrow> [])
     @ (case lb_branchName opts of Some b \<Rightarrow> if b \<noteq> [] then ''&branchName='' @ form_urlencode b else [] | None \<Rightarrow> [])
     @ (case lb_definitions opts of
          Some ds \<Rightarrow> if ds \<noteq> [] then ''&definitions='' @ join ''%2C'' (map (\<lambda>d. form_urlencode (String_int d)) ds) else []
        | None \<Rightarrow> [])
     @ (case lb_continuationToken opts of
          Some c \<Rightarrow> if c \<noteq> [] then ''&continuationToken='' @ form_urlencode c else [] | None \<Rightarrow> [])"
proof -
  have names: "form_urlencode ''api-version'' = ''api-version''" "form_urlencode ''6.0'' = ''6.0''"
    "form_urlencode ''$top'' = ''%24top''" "form_urlencode ''branchName'' = ''branchName''"
    "form_urlencode ''definitions'' = ''definitions''"
    "form_urlencode ''continuationToken'' = ''continuationToken''"
    by (simp_all add: form_urlencode_def alphanumeric_def percent_byte_def hex_digit_def)
  show ?thesis
    unfolding listBuilds_q_explicit append_Cons append_Nil toString_Cons
    by (simp add: names form_urlencode_join_comma comp_def split: option.splits)
qed


lemma hex_digit_alphanumeric: "d < 16 \<Longrightarrow> hex_digit d \<in> set alphanumeric"
proof -
  assume "d < 16"
  then have "hex_digit d \<in> set ''0123456789ABCDEF''"
    unfolding hex_digit_def by (intro nth_mem) simp
  moreover have "set ''0123456789ABCDEF'' \<subseteq> set alphanumeric"
    by (simp add: alphanumeric_def)
  ultimately show ?thesis by blast
qed

lemma percent_byte_chars: "list_all (\<lambda>c. uri_unescaped c \<or> c = CHR ''%'') (percent_byte c)"
proof -
  have "(of_char c :: nat) < 256" by (rule nat_of_char_less_256)
  then have "(of_char c :: nat) div 16 < 16" "(of_char c :: nat) mod 16 < 16" by arith+
  then have "hex_digit ((of_char c :: nat) div 16) \<in> set alphanumeric"
    "hex_digit ((of_char c :: nat) mod 16) \<in> set alphanumeric"
    by (simp_all add: hex_digit_alphanumeric)
  then show ?thesis
    by (simp add: percent_byte_def uri_unescaped_def)
qed

lemma encodeURIComponent_chars:
  "list_all (\<lambda>c. uri_unescaped c \<or> c = CHR ''%'') (encodeURIComponent s)"
proof (induction s)
  case Nil
  then show ?case by (simp add: encodeURIComponent_def)
next
  case (Cons c s)
  have enc: "encodeURIComponent (c # s) = (if uri_unescaped c then [c] else percent_byte c) @ encodeURIComponent s"
    by (simp add: encodeURIComponent_def)
  show ?case
    unfolding enc using Cons percent_byte_chars[of c] by simp
qed

lemma encodeURIComponent_no_delimiter:
  "CHR ''/'' \<notin> set (encodeURIComponent s)" "CHR ''?'' \<notin> set (encodeURIComponent s)"
  "CHR ''#'' \<notin> set (encodeURIComponent s)" "CHR ''&'' \<notin> set (encodeURIComponent s)"
  "CHR '' '' \<notin> set (encodeURIComponent s)"
proof -
  have no: "\<not> uri_unescaped CHR ''/''" "\<not> uri_unescaped CHR ''?''" "\<not> uri_unescaped CHR ''#''"
    "\<not> uri_unescaped CHR ''&''" "\<not> uri_unescaped CHR '' ''"
    by (simp_all add: uri_unescaped_def alphanumeric_def)
  from encodeURIComponent_chars[of s] have "\<forall>c\<in>set (encodeURIComponent s). uri_unescaped c \<or> c = CHR ''%''"
    unfolding list_all_iff .
  with no show "CHR ''/'' \<notin> set (encodeURIComponent s)" "CHR ''?'' \<notin> set (encodeURIComponent s)"
  "CHR ''#'' \<notin> set (encodeURIComponent s)" "CHR ''&'' \<notin> set (encodeURIComponent s)"
  "CHR '' '' \<notin> set (encodeURIComponent s)"
    by fastforce+
qed

lemma orgBase_encoded:
  "orgBase ado =
     strip_trailing_slash
       (''https://'' @ encodeURIComponent (ado_org ado) @ ''.visualstudio.com/'' @
         (case ado_project ado of Some p \<Rightarrow> encodeURIComponent p | None \<Rightarrow> []))"
  by (simp add: orgBase_def baseUrl_def encodeURIComponent_def split: option.splits)

lemma one_call_team_urls:
  "one_call (send_request ''POST''
       (orgBase ado @ ''/'' @ encodeURIComponent team @ ''/_apis/wit/wiql?api-version=6.0'') (ado_pat ado)
       (JSON_stringify (JObj [(''query'', JStr wiql)])) ''application/json'')
     tr (snd (wiqlTeam net ado team wiql tr))"
  "t \<noteq> [] \<Longrightarrow>
   one_call (get_request
       (orgBase ado @ ''/'' @ encodeURIComponent t @ ''/_apis/work/boardcolumns?api-version=6.0'') (ado_pat ado))
     tr (snd (listBoardColumns net ado (Some t) tr))"
  "one_call (get_request
       (orgBase ado @ ''/'' @ encodeURIComponent team @ ''/_apis/work/teamsettings/iterations?''
          @ URLSearchParams_toString
              ((''api-version'', ''6.0'') #
               (case timeframe of Some f \<Rightarrow> if f \<noteq> [] then [(''$timeframe'', f)] else [] | None \<Rightarrow> [])))
       (ado_pat ado))
     tr (snd (listTeamIterations net ado team timeframe tr))"
  "one_call (get_request
       (orgBase ado @ ''/'' @ encodeURIComponent team @ ''/_apis/work/teamsettings/iterations/''
          @ iterationId @ ''/workitems?api-version=6.0'') (ado_pat ado))
     tr (snd (getIterationWorkItems net ado team iterationId tr))"
  by (auto simp: wiqlTeam_def listBoardColumns_def listTeamIterations_def getIterationWorkItems_def
      adoGet_one_call adoPost_outcome one_call_single Let_def split: option.splits)


text \<open>
  C7. \<^verbatim>\<open>listBuilds\<close> sends its GET to the URL made of \<^verbatim>\<open>orgBase\<close>,
  \<^verbatim>\<open>/_apis/build/builds?\<close> and the query string of these parameters, in this order:
  \<^verbatim>\<open>api-version=6.0\<close> always; \<^verbatim>\<open>$top\<close> exactly when \<^verbatim>\<open>top\<close> is given and not zero;
  \<^verbatim>\<open>branchName\<close> exactly when it is given and not empty; \<^verbatim>\<open>definitions\<close>, the ids joined
  with commas, exactly when the list is given and not empty; \<^verbatim>\<open>continuationToken\<close>
  exactly when it is given and not empty.  The value of \<^verbatim>\<open>$top\<close> is the text
  \<^verbatim>\<open>String(top)\<close> and that of \<^verbatim>\<open>definitions\<close> the texts of the ids joined with
  commas, whatever characters these texts have.  The query string is the form-urlencoded
  serialisation of the parameters: every name and value is encoded, the texts of the
  numbers too, \<^verbatim>\<open>$\<close> is written \<^verbatim>\<open>%24\<close> and a comma \<^verbatim>\<open>%2C\<close>.  The names of the organisation, the project and the team enter the URLs
  through \<^verbatim>\<open>encodeURIComponent\<close>, whose result has only unreserved characters and
  \<^verbatim>\<open>%\<close>: no slash, question mark, hash, ampersand or space.
\<close>

theorem listBuilds_url_construction:
  "one_call (get_request (listBuilds_url ado opts) (ado_pat ado)) tr (snd (listBuilds net ado opts tr)) \<and>
   listBuilds_url ado opts =
     orgBase ado @ ''/_apis/build/builds?'' @ URLSearchParams_toString (listBuilds_q opts) \<and>
   listBuilds_q opts =
     [(''api-version'', ''6.0'')]
     @ (case lb_top opts of Some n \<Rightarrow> if n \<noteq> 0 then [(''$top'', String_int n)] else [] | None \<Rightarrow> [])
     @ (case lb_branchName opts of Some b \<Rightarrow> if b \<noteq> [] then [(''branchName'', b)] else [] | None \<Rightarrow> [])
     @ (case lb_definitions opts of
          Some ds \<Rightarrow> if ds \<noteq> [] then [(''definitions'', join '','' (map String_int ds))] else []
        | None \<Rightarrow> [])
     @ (case lb_continuationToken opts of
          Some c \<Rightarrow> if c \<noteq> [] then [(''continuationToken'', c)] else [] | None \<Rightarrow> []) \<and>
   URLSearchParams_toString (listBuilds_q opts) =
     ''api-version=6.0''
     @ (case lb_top opts of Some n \<Rightarrow> if n \<noteq> 0 then ''&%24top='' @ form_urlencode (String_int n) else [] | None \<Rightarrow> [])
     @ (case lb_branchName opts of Some b \<Rightarrow> if b \<noteq> [] then ''&branchName='' @ form_urlencode b else [] | None \<Rightarrow> [])
     @ (case lb_definitions opts of
          Some ds \<Rightarrow> if ds \<noteq> [] then ''&definitions='' @ join ''%2C'' (map (\<lambda>d. form_urlencode (String_int d)) ds) else []
        | None \<Rightarrow> [])
     @ (case lb_continuationToken opts of
          Some c \<Rightarrow> if c \<noteq> [] then ''&continuationToken='' @ form_urlencode c else [] | None \<Rightarrow> []) \<and>
   orgBase ado =
     strip_trailing_slash
       (''https://'' @ encodeURIComponent (ado_org ado) @ ''.visualstudio.com/'' @
         (case ado_project ado of Some p \<Rightarrow> encodeURIComponent p | None \<Rightarrow> [])) \<and>
   one_call (send_request ''POST''
       (orgBase ado @ ''/'' @ encodeURIComponent team @ ''/_apis/wit/wiql?api-version=6.0'') (ado_pat ado)
       (JSON_stringify (JObj [(''query'', JStr wiql)])) ''application/json'')
     tr (snd (wiqlTeam net ado team wiql tr)) \<and>
   (team \<noteq> [] \<longrightarrow>
      one_call (get_request
          (orgBase ado @ ''/'' @ encodeURIComponent team @ ''/_apis/work/boardcolumns?api-version=6.0'')
          (ado_pat ado))
        tr (snd (listBoardColumns net ado (Some team) tr))) \<and>
   one_call (get_request
       (orgBase ado @ ''/'' @ encodeURIComponent team @ ''/_apis/work/teamsettings/iterations?''
          @ URLSearchParams_toString
              ((''api-version'', ''6.0'') #
               (case timeframe of Some f \<Rightarrow> if f \<noteq> [] then [(''$timeframe'', f)] else [] | None \<Rightarrow> [])))
       (ado_pat ado))
     tr (snd (listTeamIterations net ado team timeframe tr)) \<and>
   one_call (get_request
       (orgBase ado @ ''/'' @ encodeURIComponent team @ ''/_apis/work/teamsettings/iterations/''
          @ iterationId @ ''/workitems?api-version=6.0'') (ado_pat ado))
     tr (snd (getIterationWorkItems net ado team iterationId tr)) \<and>
   list_all (\<lambda>c. uri_unescaped c \<or> c = CHR ''%'') (encodeURIComponent s) \<and>
   CHR ''/'' \<notin> set (encodeURIComponent s) \<and> CHR ''?'' \<notin> set (encodeURIComponent s) \<and>
   CHR ''#'' \<notin> set (encodeURIComponent s) \<and> CHR ''&'' \<notin> set (encodeURIComponent s) \<and>
   CHR '' '' \<notin> set (encodeURIComponent s)"
proof -
  have "one_call (get_request (listBuilds_url ado opts) (ado_pat ado)) tr (snd (listBuilds net ado opts tr))"
    by (simp add: listBuilds_def adoGet_one_call)
  moreover have "listBuilds_url ado opts =
     orgBase ado @ ''/_apis/build/builds?'' @ URLSearchParams_toString (listBuilds_q opts)"
    by (simp add: listBuilds_url_def)
  ultimately show ?thesis
    using listBuilds_q_explicit[of opts] listBuilds_wire[of opts] orgBase_encoded[of ado]
      one_call_team_urls(1)[where ado = ado and team = team and wiql = wiql and tr = tr and net = net]
      one_call_team_urls(2)[where ado = ado and t = team and tr = tr and net = net]
      one_call_team_urls(3)[where ado = ado and team = team and timeframe = timeframe and tr = tr and net = net]
      one_call_team_urls(4)[where ado = ado and team = team and iterationId = iterationId and tr = tr and net = net]
      encodeURIComponent_chars[of s] encodeURIComponent_no_delimiter[of s]
    by (intro conjI impI) (assumption | blast)+
qed

theorem listBuilds_url_construction_witness:
  "listBuilds_url contoso builds_example =
     ''https://contoso.visualstudio.com/Web%20Shop/_apis/build/builds?api-version=6.0&%24top=25&branchName=refs%2Fheads%2Fmain&definitions=1%2C42'' \<and>
   listBuilds_q builds_example =
     [(''api-version'', ''6.0''), (''$top'', ''25''), (''branchName'', ''refs/heads/main''), (''definitions'', ''1,42'')] \<and>
   one_call (get_request
       ''https://contoso.visualstudio.com/Web%20Shop/Core%20Team/_apis/work/boardcolumns?api-version=6.0'' ''secret'')
     [] (snd (listBoardColumns (scripted []) contoso (Some ''Core Team'') []))"
proof -
  note th = listBuilds_url_construction[where ado = contoso and opts = builds_example and tr = "[]"
      and net = "scripted []" and team = "''Core Team''"]
  note url = th[THEN conjunct2, THEN conjunct1]
  note q = th[THEN conjunct2, THEN conjunct2, THEN conjunct1]
  note wire = th[THEN conjunct2, THEN conjunct2, THEN conjunct2, THEN conjunct1]
  note columns = th[THEN conjunct2, THEN conjunct2, THEN conjunct2, THEN conjunct2, THEN conjunct2,
      THEN conjunct2, THEN conjunct1]
  have nums: "String_int 25 = ''25''" "String_int 1 = ''1''" "String_int 42 = ''42''"
    by (simp_all add: String_int_def String_nat.simps digit_char_def)
  have base: "orgBase contoso = ''https://contoso.visualstudio.com/Web%20Shop''"
    by (simp add: contoso_def orgBase_def baseUrl_def encodeURIComponent_def uri_unescaped_def
        alphanumeric_def percent_byte_def hex_digit_def strip_trailing_slash_def)
  have team: "encodeURIComponent ''Core Team'' = ''Core%20Team''"
    by (simp add: encodeURIComponent_def uri_unescaped_def alphanumeric_def percent_byte_def hex_digit_def)
  have branch: "form_urlencode ''refs/heads/main'' = ''refs%2Fheads%2Fmain''"
    "form_urlencode ''25'' = ''25''" "form_urlencode ''1'' = ''1''" "form_urlencode ''42'' = ''42''"
    by (simp_all add: form_urlencode_def alphanumeric_def percent_byte_def hex_digit_def)
  have 1: "URLSearchParams_toString (listBuilds_q builds_example) =
      ''api-version=6.0&%24top=25&branchName=refs%2Fheads%2Fmain&definitions=1%2C42''"
    using wire by (simp add: builds_example_def nums branch)
  have 2: "listBuilds_q builds_example =
     [(''api-version'', ''6.0''), (''$top'', ''25''), (''branchName'', ''refs/heads/main''), (''definitions'', ''1,42'')]"
    using q by (simp add: builds_example_def nums)
  have 3: "one_call (get_request
          (orgBase contoso @ ''/'' @ encodeURIComponent ''Core Team'' @ ''/_apis/work/boardcolumns?api-version=6.0'')
          (ado_pat contoso))
        [] (snd (listBoardColumns (scripted []) contoso (Some ''Core Team'') []))"
    using columns by simp
  have pat: "ado_pat contoso = ''secret''"
    by (simp add: contoso_def)
  from url 1 2 3 show ?thesis
    by (simp add: base team pat)
qed

subsection \<open>JSON-patch documents\<close>


lemma create_document_v1: "create_document a (work_item_create_ops a)"
  by (cases "wc_description a"; cases "wc_iterationPath a"; cases "wc_areaPath a")
     (auto simp: create_document_def work_item_create_ops_def Let_def)

lemma create_document_v0: "create_document a (work_item_create_ops_v0 a)"
  by (cases "wc_description a"; cases "wc_iterationPath a"; cases "wc_areaPath a")
     (auto simp: create_document_def work_item_create_ops_v0_def)


text \<open>
  C8. The JSON-patch document of \<^verbatim>\<open>work_item_create\<close> starts with the operation that
  adds \<^verbatim>\<open>/fields/System.Title\<close> with the title.  It has an operation on
  \<^verbatim>\<open>/fields/System.Description\<close>, \<^verbatim>\<open>/fields/System.IterationPath\<close> and
  \<^verbatim>\<open>/fields/System.AreaPath\<close> exactly when the corresponding argument is given and
  not empty; such an operation is an \<^verbatim>\<open>add\<close> of the argument's value; no path occurs
  twice and there is no other operation.  This document is the body of the request of
  the invocation.  Both builds satisfy this; they differ in the order of the optional
  operations.
\<close>

theorem work_item_create_document:
  "create_document a (work_item_create_ops a) \<and>
   create_document a (work_item_create_ops_v0 a) \<and>
   (WorkItemCreateSchema args = Inr a \<longrightarrow>
      snd (callTool net ado ''work_item_create'' args tr) =
        tr @ [Request (send_request ''PATCH'' (createWorkItem_url ado (wc_type a)) (ado_pat ado)
                (JSON_stringify (JArr (map patch_op_json (work_item_create_ops a))))
                ''application/json-patch+json'')]) \<and>
   (WorkItemCreateArgs args = Some a \<longrightarrow>
      map_option snd (callTool_v0 net ado ''work_item_create'' args tr) =
        Some (tr @ [Request (send_request ''PATCH'' (createWorkItem_url ado (wc_type a)) (ado_pat ado)
                (JSON_stringify (JArr (map patch_op_json (work_item_create_ops_v0 a))))
                ''application/json-patch+json'')]))"
  using create_document_v1[of a] create_document_v0[of a]
    patch_documents(1)[of args a net ado tr] patch_documents_v0(1)[of args a net ado tr]
  by blast

theorem work_item_create_document_witness:
  "create_document create_example_parsed
     [\<lparr>op = ''add'', path = ''/fields/System.Title'', val = ''Crash on startup''\<rparr>,
      \<lparr>op = ''add'', path = ''/fields/System.Description'', val = ''Steps''\<rparr>,
      \<lparr>op = ''add'', path = ''/fields/System.AreaPath'', val = ''Shop''\<rparr>] \<and>
   create_document create_example_parsed
     [\<lparr>op = ''add'', path = ''/fields/System.Title'', val = ''Crash on startup''\<rparr>,
      \<lparr>op = ''add'', path = ''/fields/System.AreaPath'', val = ''Shop''\<rparr>,
      \<lparr>op = ''add'', path = ''/fields/System.Description'', val = ''Steps''\<rparr>] \<and>
   snd (callTool (scripted []) contoso ''work_item_create'' create_example []) =
     [Request (send_request ''PATCH''
        ''https://contoso.visualstudio.com/Web%20Shop/_apis/wit/workitems/$Bug?api-version=6.0'' ''secret''
        (JSON_stringify (JArr (map patch_op_json
          [\<lparr>op = ''add'', path = ''/fields/System.Title'', val = ''Crash on startup''\<rparr>,
           \<lparr>op = ''add'', path = ''/fields/System.Description'', val = ''Steps''\<rparr>,
           \<lparr>op = ''add'', path = ''/fields/System.AreaPath'', val = ''Shop''\<rparr>])))
        ''application/json-patch+json'')] \<and>
   map_option snd (callTool_v0 (scripted []) contoso ''work_item_create'' create_example []) =
     Some [Request (send_request ''PATCH''
        ''https://contoso.visualstudio.com/Web%20Shop/_apis/wit/workitems/$Bug?api-version=6.0'' ''secret''
        (JSON_stringify (JArr (map patch_op_json
          [\<lparr>op = ''add'', path = ''/fields/System.Title'', val = ''Crash on startup''\<rparr>,
           \<lparr>op = ''add'', path = ''/fields/System.AreaPath'', val = ''Shop''\<rparr>,
           \<lparr>op = ''add'', path = ''/fields/System.Description'', val = ''Steps''\<rparr>])))
        ''application/json-patch+json'')]"
proof -
  have parsed: "WorkItemCreateSchema create_example = Inr create_example_parsed"
    by (simp add: create_example_def create_example_parsed_def WorkItemCreateSchema_def z_object_def
        z_member_def z_optional_def z_string_def z_both_def)
  then have typed: "WorkItemCreateArgs create_example = Some create_example_parsed"
    by (simp add: WorkItemCreateArgs_def typed_def)
  have ops: "work_item_create_ops create_example_parsed =
     [\<lparr>op = ''add'', path = ''/fields/System.Title'', val = ''Crash on startup''\<rparr>,
      \<lparr>op = ''add'', path = ''/fields/System.Description'', val = ''Steps''\<rparr>,
      \<lparr>op = ''add'', path = ''/fields/System.AreaPath'', val = ''Shop''\<rparr>]"
    by (simp add: work_item_create_ops_def create_example_parsed_def)
  have ops0: "work_item_create_ops_v0 create_example_parsed =
     [\<lparr>op = ''add'', path = ''/fields/System.Title'', val = ''Crash on startup''\<rparr>,
      \<lparr>op = ''add'', path = ''/fields/System.AreaPath'', val = ''Shop''\<rparr>,
      \<lparr>op = ''add'', path = ''/fields/System.Description'', val = ''Steps''\<rparr>]"
    by (simp add: work_item_create_ops_v0_def create_example_parsed_def)
  have url: "createWorkItem_url contoso (wc_type create_example_parsed) =
      ''https://contoso.visualstudio.com/Web%20Shop/_apis/wit/workitems/$Bug?api-version=6.0''"
    by (simp add: createWorkItem_url_def create_example_parsed_def
      contoso_def orgBase_def baseUrl_def encodeURIComponent_def uri_unescaped_def alphanumeric_def
      percent_byte_def hex_digit_def strip_trailing_slash_def)
  have pat: "ado_pat contoso = ''secret''"
    by (simp add: contoso_def)
  show ?thesis
    using work_item_create_document[of create_example_parsed create_example "scripted []" contoso "[]"]
      parsed typed
    unfolding ops ops0 url pat by simp
qed

subsection \<open>Moving a work item on the board\<close>


lemma board_move_args_parsed:
  "BoardMoveSchema (board_move_args wid st it) =
     Inr \<lparr>bm_id = wid, bm_stateName = st, bm_iterationPath = it\<rparr>"
  by (cases st; cases it)
     (simp_all add: board_move_args_def optional_member_def BoardMoveSchema_def z_object_def z_member_def
        z_number_def z_optional_def z_string_def z_both_def)

lemma work_item_update_args_parsed:
  "WorkItemUpdateSchema (work_item_update_args wid st it) =
     Inr \<lparr>wu_id = wid, wu_state = st, wu_iterationPath = it, wu_fields = None\<rparr>"
  by (cases st; cases it)
     (simp_all add: work_item_update_args_def optional_member_def WorkItemUpdateSchema_def z_object_def
        z_member_def z_number_def z_optional_def z_string_def z_both_def)

lemma board_move_ops_eq:
  "board_move_ops \<lparr>bm_id = wid, bm_stateName = st, bm_iterationPath = it\<rparr> =
     work_item_update_ops \<lparr>wu_id = wid, wu_state = st, wu_iterationPath = it, wu_fields = None\<rparr>"
  "board_move_ops_v0 \<lparr>bm_id = wid, bm_stateName = st, bm_iterationPath = it\<rparr> =
     work_item_update_ops \<lparr>wu_id = wid, wu_state = st, wu_iterationPath = it, wu_fields = None\<rparr>"
  by (cases st; cases it; simp add: board_move_ops_def board_move_ops_v0_def work_item_update_ops_def)+

lemma board_move_as_update:
  "callTool net ado ''board_move'' (board_move_args wid st it) tr =
   callTool net ado ''work_item_update'' (work_item_update_args wid st it) tr"
  by (simp add: callTool_def switch_name_known board_move_args_parsed work_item_update_args_parsed
      board_move_ops_eq)

lemma board_move_as_update_v0:
  "map_option snd (callTool_v0 net ado ''board_move'' (board_move_args wid st it) tr) =
   map_option snd (callTool_v0 net ado ''work_item_update'' (work_item_update_args wid st it) tr)"
proof -
  have "BoardMoveArgs (board_move_args wid st it) =
      Some \<lparr>bm_id = wid, bm_stateName = st, bm_iterationPath = it\<rparr>"
    by (simp add: BoardMoveArgs_def typed_def board_move_args_parsed)
  moreover have "WorkItemUpdateArgs (work_item_update_args wid st it) =
      Some \<lparr>wu_id = wid, wu_state = st, wu_iterationPath = it, wu_fields = None\<rparr>"
    by (simp add: WorkItemUpdateArgs_def typed_def work_item_update_args_parsed)
  ultimately show ?thesis
    by (simp add: patch_documents_v0 board_move_ops_eq)
qed


text \<open>
  C9. For every id, state name and iteration path (each of the two given or not),
  \<^verbatim>\<open>board_move\<close> sends the PATCH request that \<^verbatim>\<open>work_item_update\<close> sends for the same
  id, \<^verbatim>\<open>state\<close> set to the state name, the same iteration path and no extra fields: the
  same URL, headers and JSON-patch document, the operations in the same order.  With neither
  given, both send the empty JSON-patch array.  In the build 1.0.0 the results of the two
  invocations are equal as well.
\<close>

theorem board_move_is_work_item_update:
  "callTool net ado ''board_move'' (board_move_args wid st it) tr =
     callTool net ado ''work_item_update'' (work_item_update_args wid st it) tr \<and>
   snd (callTool net ado ''board_move'' (board_move_args wid st it) tr) =
     tr @ [Request (send_request ''PATCH'' (updateWorkItem_url ado wid) (ado_pat ado)
             (JSON_stringify (JArr (map patch_op_json
                (work_item_update_ops \<lparr>wu_id = wid, wu_state = st, wu_iterationPath = it, wu_fields = None\<rparr>))))
             ''application/json-patch+json'')] \<and>
   snd (callTool net ado ''board_move'' (board_move_args wid None None) tr) =
     tr @ [Request (send_request ''PATCH'' (updateWorkItem_url ado wid) (ado_pat ado) ''[]''
             ''application/json-patch+json'')] \<and>
   map_option snd (callTool_v0 net ado ''board_move'' (board_move_args wid st it) tr) =
     map_option snd (callTool_v0 net ado ''work_item_update'' (work_item_update_args wid st it) tr) \<and>
   map_option snd (callTool_v0 net ado ''board_move'' (board_move_args wid st it) tr) =
     Some (tr @ [Request (send_request ''PATCH'' (updateWorkItem_url ado wid) (ado_pat ado)
             (JSON_stringify (JArr (map patch_op_json
                (work_item_update_ops \<lparr>wu_id = wid, wu_state = st, wu_iterationPath = it, wu_fields = None\<rparr>))))
             ''application/json-patch+json'')]) \<and>
   map_option snd (callTool_v0 net ado ''board_move'' (board_move_args wid None None) tr) =
     Some (tr @ [Request (send_request ''PATCH'' (updateWorkItem_url ado wid) (ado_pat ado) ''[]''
             ''application/json-patch+json'')])"
proof -
  have typed: "BoardMoveArgs (board_move_args wid s i) =
      Some \<lparr>bm_id = wid, bm_stateName = s, bm_iterationPath = i\<rparr>" for s i
    by (simp add: BoardMoveArgs_def typed_def board_move_args_parsed)
  have empty: "work_item_update_ops \<lparr>wu_id = wid, wu_state = None, wu_iterationPath = None, wu_fields = None\<rparr> = []"
    by (simp add: work_item_update_ops_def)
  have doc: "snd (callTool net ado ''board_move'' (board_move_args wid s i) tr) =
     tr @ [Request (send_request ''PATCH'' (updateWorkItem_url ado wid) (ado_pat ado)
             (JSON_stringify (JArr (map patch_op_json
                (work_item_update_ops \<lparr>wu_id = wid, wu_state = s, wu_iterationPath = i, wu_fields = None\<rparr>))))
             ''application/json-patch+json'')]" for s i
    using patch_documents(3)[OF board_move_args_parsed, of net ado wid s i tr]
    by (simp add: board_move_ops_eq)
  have doc0: "map_option snd (callTool_v0 net ado ''board_move'' (board_move_args wid s i) tr) =
     Some (tr @ [Request (send_request ''PATCH'' (updateWorkItem_url ado wid) (ado_pat ado)
             (JSON_stringify (JArr (map patch_op_json
                (work_item_update_ops \<lparr>wu_id = wid, wu_state = s, wu_iterationPath = i, wu_fields = None\<rparr>))))
             ''application/json-patch+json'')])" for s i
    using patch_documents_v0(3)[OF typed, of net ado s i tr]
    by (simp add: board_move_ops_eq)
  show ?thesis
    using board_move_as_update[of net ado wid st it tr] board_move_as_update_v0[of net ado wid st it tr]
      doc[of st it] doc[of None None] doc0[of st it] doc0[of None None]
    by (simp add: empty)
qed

theorem board_move_is_work_item_update_witness:
  "snd (callTool (scripted [404]) contoso ''board_move''
          (Some (JObj [(''id'', JNum 12), (''stateName'', JStr ''Done''), (''iterationPath'', JStr ''Shop/Sprint 32'')])) []) =
     [Request (send_request ''PATCH''
        ''https://contoso.visualstudio.com/Web%20Shop/_apis/wit/workitems/12?api-version=6.0'' ''secret''
        (JSON_stringify (JArr (map patch_op_json
          [\<lparr>op = ''add'', path = ''/fields/System.State'', val = ''Done''\<rparr>,
           \<lparr>op = ''add'', path = ''/fields/System.IterationPath'', val = ''Shop/Sprint 32''\<rparr>])))
        ''application/json-patch+json'')] \<and>
   callTool (scripted [404]) contoso ''board_move''
      (Some (JObj [(''id'', JNum 12), (''stateName'', JStr ''Done''), (''iterationPath'', JStr ''Shop/Sprint 32'')])) [] =
   callTool (scripted [404]) contoso ''work_item_update''
      (Some (JObj [(''id'', JNum 12), (''state'', JStr ''Done''), (''iterationPath'', JStr ''Shop/Sprint 32'')])) []"
proof -
  have url: "updateWorkItem_url contoso 12 =
      ''https://contoso.visualstudio.com/Web%20Shop/_apis/wit/workitems/12?api-version=6.0''"
    by (simp add: updateWorkItem_url_def
      contoso_def orgBase_def baseUrl_def encodeURIComponent_def uri_unescaped_def alphanumeric_def
      percent_byte_def hex_digit_def strip_trailing_slash_def String_int_def String_nat.simps
      digit_char_def)
  have pat: "ado_pat contoso = ''secret''"
    by (simp add: contoso_def)
  have ops: "work_item_update_ops
      \<lparr>wu_id = 12, wu_state = Some ''Done'', wu_iterationPath = Some ''Shop/Sprint 32'', wu_fields = None\<rparr> =
      [\<lparr>op = ''add'', path = ''/fields/System.State'', val = ''Done''\<rparr>,
       \<lparr>op = ''add'', path = ''/fields/System.IterationPath'', val = ''Shop/Sprint 32''\<rparr>]"
    by (simp add: work_item_update_ops_def)
  have a: "board_move_args 12 (Some ''Done'') (Some ''Shop/Sprint 32'') =
      Some (JObj [(''id'', JNum 12), (''stateName'', JStr ''Done''), (''iterationPath'', JStr ''Shop/Sprint 32'')])"
    "work_item_update_args 12 (Some ''Done'') (Some ''Shop/Sprint 32'') =
      Some (JObj [(''id'', JNum 12), (''state'', JStr ''Done''), (''iterationPath'', JStr ''Shop/Sprint 32'')])"
    by (simp_all add: board_move_args_def work_item_update_args_def optional_member_def)
  note th = board_move_is_work_item_update[of "scripted [404]" contoso 12 "Some ''Done''"
        "Some ''Shop/Sprint 32''" "[]"]
  have eq: "callTool (scripted [404]) contoso ''board_move''
      (Some (JObj [(''id'', JNum 12), (''stateName'', JStr ''Done''), (''iterationPath'', JStr ''Shop/Sprint 32'')])) [] =
   callTool (scripted [404]) contoso ''work_item_update''
      (Some (JObj [(''id'', JNum 12), (''state'', JStr ''Done''), (''iterationPath'', JStr ''Shop/Sprint 32'')])) []"
    using th[THEN conjunct1] unfolding a .
  have sent: "snd (callTool (scripted [404]) contoso ''board_move''
          (Some (JObj [(''id'', JNum 12), (''stateName'', JStr ''Done''), (''iterationPath'', JStr ''Shop/Sprint 32'')])) []) =
     [] @ [Request (send_request ''PATCH''
        ''https://contoso.visualstudio.com/Web%20Shop/_apis/wit/workitems/12?api-version=6.0'' ''secret''
        (JSON_stringify (JArr (map patch_op_json
          [\<lparr>op = ''add'', path = ''/fields/System.State'', val = ''Done''\<rparr>,
           \<lparr>op = ''add'', path = ''/fields/System.IterationPath'', val = ''Shop/Sprint 32''\<rparr>])))
        ''application/json-patch+json'')]"
    using th[THEN conjunct2, THEN conjunct1] unfolding a url pat ops .
  from sent eq show ?thesis
    unfolding append_Nil by (rule conjI)
qed

end
